theory Spec2Isabelle
  imports Main "HOL-Library.Word"
begin

section \<open>Python exceptions as values\<close>

text \<open>
  Every raise of the wrapper is a value of this type: the exception class with its
  message. The two messages of the input-presence check are the ones written in the
  source; the others name the Python operation that fails.
\<close>

datatype error =
    ValueError string
  | TypeError string
  | KeyError string
  | IndexError string
  | ZeroDivisionError string
  | AttributeError string

definition bind_err :: "error + 'a \<Rightarrow> ('a \<Rightarrow> error + 'b) \<Rightarrow> error + 'b" where
  "bind_err m f = (case m of Inl e \<Rightarrow> Inl e | Inr x \<Rightarrow> f x)"

section \<open>One-dimensional integer tensors\<close>

text \<open>
  \<open>seq_lens_this_time\<close> is a vector of sequence lengths in a signed integer dtype of the
  caller's choice: its entries are words of that width, read as two's complement by
  \<open>sint\<close>. \<open>paddle.max\<close> compares the signed values and has
  no value on an empty vector, which is an error of the model. The subtraction and
  \<open>paddle.cumsum\<close> stay in the dtype and wrap around. \<open>paddle.sum\<close> returns an \<open>int64\<close>
  tensor for an \<open>int32\<close> one and a tensor of the same dtype otherwise; the model gives
  the integer that tensor holds.
\<close>

primrec cumsum_from :: "'w::len word \<Rightarrow> 'w word list \<Rightarrow> 'w word list" where
  "cumsum_from acc [] = []"
| "cumsum_from acc (x # xs) = (acc + x) # cumsum_from (acc + x) xs"

definition paddle_cumsum :: "'w::len word list \<Rightarrow> 'w word list" where
  "paddle_cumsum xs = cumsum_from 0 xs"

definition smax :: "'w::len word \<Rightarrow> 'w word \<Rightarrow> 'w word" where
  "smax a b = (if sint a \<le> sint b then b else a)"

fun paddle_max :: "'w::len word list \<Rightarrow> error + 'w word" where
  "paddle_max [] = Inl (ValueError ''max of an empty tensor'')"
| "paddle_max (x # xs) = Inr (fold smax xs x)"

definition paddle_sum :: "'w::len word list \<Rightarrow> int" where
  "paddle_sum xs =
     (if LENGTH('w) = 32 then sint (sum_list (map scast xs) :: 64 word)
      else sint (sum_list xs))"

text \<open>A scalar minus a vector broadcasts the scalar.\<close>

definition scalar_minus :: "'w::len word \<Rightarrow> 'w word list \<Rightarrow> 'w word list" where
  "scalar_minus m xs = map (\<lambda>x. m - x) xs"

section \<open>remove_padding\<close>

text \<open>
  \<open>get_padding_offset\<close> is the external operator of \<open>paddlenlp_ops\<close>; it is a parameter
  of the model. The source unpacks its outputs as
  \<open>ids_remove_padding, cum_offsets, padding_offset\<close> and returns them as
  \<open>ids_remove_padding, padding_offset, cum_offsets\<close>.
\<close>

definition remove_padding ::
  "('ids \<Rightarrow> 'w::len word list \<Rightarrow> int \<Rightarrow> 'w word list \<Rightarrow> 'r \<times> 'c \<times> 'p) \<Rightarrow> 'ids
     \<Rightarrow> 'w word list \<Rightarrow> error + ('r \<times> 'p \<times> 'c)" where
  "remove_padding get_padding_offset input_ids seq_lens_this_time =
     bind_err (paddle_max seq_lens_this_time) (\<lambda>m.
       let cum_offsets_now = paddle_cumsum (scalar_minus m seq_lens_this_time);
           token_num = paddle_sum seq_lens_this_time
       in case get_padding_offset input_ids cum_offsets_now token_num seq_lens_this_time of
            (ids_remove_padding, cum_offsets, padding_offset) \<Rightarrow>
              Inr (ids_remove_padding, padding_offset, cum_offsets))"

text \<open>
  The numbers the claim names, as integers without a width: \<open>offset_sum seq i\<close> is the sum
  over \<open>j \<le> i\<close> of the maximum of the vector minus its j-th entry. \<open>sum_bits\<close> is the width
  of the tensor \<open>paddle.sum\<close> returns.
\<close>

definition offset_sum :: "'w::len word list \<Rightarrow> nat \<Rightarrow> int" where
  "offset_sum seq i = (\<Sum>j\<le>i. Max (sint ` set seq) - sint (seq ! j))"

definition sum_bits :: "'w::len word list \<Rightarrow> nat" where
  "sum_bits seq = (if LENGTH('w) = 32 then 64 else LENGTH('w))"

section \<open>Tensors\<close>

text \<open>
  A tensor is its shape and its entries, read at a multi-index (one position per axis,
  first axis first). An index is in range when it has the length of the shape and each
  position is below its dimension; the operations below say what they read for the
  in-range indices of their result. The element type stands for the dtype: \<open>bool\<close> for
  a Boolean tensor, any other type for a numeric one.
\<close>

record 'a tensor =
  shape :: "nat list"
  entry :: "nat list \<Rightarrow> 'a"

text \<open>\<open>paddle.ones(shape, dtype="bool")\<close> and \<open>paddle.tril\<close>, which keeps the entries
  whose column (last axis) is at most their row (axis before the last).\<close>

definition paddle_ones :: "nat list \<Rightarrow> bool tensor" where
  "paddle_ones shp = \<lparr>shape = shp, entry = (\<lambda>idx. True)\<rparr>"

definition paddle_tril :: "bool tensor \<Rightarrow> bool tensor" where
  "paddle_tril t =
     (let n = length (shape t)
      in \<lparr>shape = shape t,
          entry = (\<lambda>idx. if idx ! (n - 1) \<le> idx ! (n - 2) then entry t idx else False)\<rparr>)"

text \<open>\<open>paddle.concat([a, b], axis=-1)\<close>: the other axes must agree.\<close>

definition paddle_concat_last :: "'a tensor \<Rightarrow> 'a tensor \<Rightarrow> error + 'a tensor" where
  "paddle_concat_last a b =
     (if shape a = [] \<or> shape b = [] \<or> butlast (shape a) \<noteq> butlast (shape b)
      then Inl (ValueError ''concat: shapes differ outside the axis'')
      else Inr \<lparr>shape = butlast (shape a) @ [last (shape a) + last (shape b)],
                entry = (\<lambda>idx. if last idx < last (shape a) then entry a idx
                               else entry b (butlast idx @ [last idx - last (shape a)]))\<rparr>)"

text \<open>\<open>unsqueeze(k)\<close> inserts an axis of size 1 at position \<open>k\<close>;
  \<open>unsqueeze(axis=[1, 2])\<close> inserts the axes one after the other.\<close>

definition unsqueeze :: "nat \<Rightarrow> 'a tensor \<Rightarrow> 'a tensor" where
  "unsqueeze k t =
     \<lparr>shape = take k (shape t) @ [1] @ drop k (shape t),
      entry = (\<lambda>idx. entry t (take k idx @ drop (Suc k) idx))\<rparr>"

text \<open>
  \<open>expand\<close> to a shape of the same rank: every dimension of the source is the target's
  or is 1, otherwise the framework raises. A dimension of size 1 is read at position 0.
\<close>

definition expandable :: "nat list \<Rightarrow> nat list \<Rightarrow> bool" where
  "expandable src tgt \<longleftrightarrow>
     length src = length tgt \<and> list_all2 (\<lambda>d t. d = t \<or> d = 1) src tgt"

definition broadcast_index :: "nat list \<Rightarrow> nat list \<Rightarrow> nat list" where
  "broadcast_index shp idx =
     map2 (\<lambda>d i. if d = 1 then 0 else i) shp (drop (length idx - length shp) idx)"

definition paddle_expand :: "'a tensor \<Rightarrow> nat list \<Rightarrow> error + 'a tensor" where
  "paddle_expand t tgt =
     (if expandable (shape t) tgt
      then Inr \<lparr>shape = tgt, entry = (\<lambda>idx. entry t (broadcast_index (shape t) idx))\<rparr>
      else Inl (ValueError ''expand: a non-singleton dimension does not match''))"

text \<open>
  The operator \<open>&\<close> on two Boolean tensors broadcasts them: the shapes are aligned at the
  last axis, and two dimensions are compatible when they are equal or one of them is 1.
\<close>

fun broadcast_rev :: "nat list \<Rightarrow> nat list \<Rightarrow> nat list option" where
  "broadcast_rev [] ys = Some ys"
| "broadcast_rev xs [] = Some xs"
| "broadcast_rev (x # xs) (y # ys) =
     (if x = y \<or> y = 1 then map_option ((#) x) (broadcast_rev xs ys)
      else if x = 1 then map_option ((#) y) (broadcast_rev xs ys)
      else None)"

definition broadcast_shape :: "nat list \<Rightarrow> nat list \<Rightarrow> nat list option" where
  "broadcast_shape a b = map_option rev (broadcast_rev (rev a) (rev b))"

definition paddle_and :: "bool tensor \<Rightarrow> bool tensor \<Rightarrow> error + bool tensor" where
  "paddle_and a b =
     (case broadcast_shape (shape a) (shape b) of
        None \<Rightarrow> Inl (ValueError ''bitwise_and: shapes cannot be broadcast'')
      | Some shp \<Rightarrow>
          Inr \<lparr>shape = shp,
               entry = (\<lambda>idx. entry a (broadcast_index (shape a) idx)
                             \<and> entry b (broadcast_index (shape b) idx))\<rparr>)"

text \<open>
  The \<open>padding_mask\<close> argument is a Boolean tensor or a numeric one (the tokenizer's
  integers, or the floats of \<open>prepare_inputs_for_generation\<close>). \<open>astype("bool")\<close> leaves the
  first as it is and maps a number to whether it is not zero. A numeric mask whose rank is
  not 2, 3 or 4 reaches \<open>&\<close> unconverted; what the framework does with a Boolean and a
  non-Boolean operand is not decided by this file, and the model reports an error there.
\<close>

datatype 'a mask = BoolMask "bool tensor" | NumMask "'a tensor"

fun mask_shape :: "'a mask \<Rightarrow> nat list" where
  "mask_shape (BoolMask t) = shape t"
| "mask_shape (NumMask t) = shape t"

fun astype_bool :: "'a::zero mask \<Rightarrow> bool tensor" where
  "astype_bool (BoolMask t) = t"
| "astype_bool (NumMask t) = \<lparr>shape = shape t, entry = (\<lambda>idx. entry t idx \<noteq> 0)\<rparr>"

text \<open>\<open>unsqueeze\<close> and \<open>expand\<close> on a mask of either kind.\<close>

fun mask_unsqueeze :: "nat \<Rightarrow> 'a mask \<Rightarrow> 'a mask" where
  "mask_unsqueeze k (BoolMask t) = BoolMask (unsqueeze k t)"
| "mask_unsqueeze k (NumMask t) = NumMask (unsqueeze k t)"

fun mask_expand :: "'a mask \<Rightarrow> nat list \<Rightarrow> error + 'a mask" where
  "mask_expand (BoolMask t) tgt = bind_err (paddle_expand t tgt) (\<lambda>r. Inr (BoolMask r))"
| "mask_expand (NumMask t) tgt = bind_err (paddle_expand t tgt) (\<lambda>r. Inr (NumMask r))"

fun and_mask :: "bool tensor \<Rightarrow> 'a mask \<Rightarrow> error + bool tensor" where
  "and_mask c (BoolMask t) = paddle_and c t"
| "and_mask c (NumMask t) = Inl (TypeError ''bitwise_and: bool and non-bool operands'')"

section \<open>get_masks\<close>

definition get_masks ::
  "nat \<Rightarrow> nat \<Rightarrow> nat \<Rightarrow> 'a::zero mask option \<Rightarrow> error + bool tensor" where
  "get_masks batch_size seq_length past_length padding_mask =
     bind_err
       (let casual_mask = paddle_tril (paddle_ones [batch_size, 1, seq_length, seq_length])
        in if past_length > 0
           then paddle_concat_last
                  (paddle_ones [batch_size, 1, seq_length, past_length]) casual_mask
           else Inr casual_mask)
       (\<lambda>casual_mask.
          let padding_mask =
                (case padding_mask of
                   None \<Rightarrow>
                     BoolMask (paddle_ones [batch_size, 1, seq_length, seq_length + past_length])
                 | Some m \<Rightarrow> m)
          in bind_err
               (if length (mask_shape padding_mask) = 2
                then bind_err
                       (mask_expand (mask_unsqueeze 2 (mask_unsqueeze 1 padding_mask))
                          [batch_size, 1, seq_length, seq_length + past_length])
                       (\<lambda>m. Inr (BoolMask (astype_bool m)))
                else if length (mask_shape padding_mask) = 3
                then Inr (BoolMask (astype_bool (mask_unsqueeze 1 padding_mask)))
                else if length (mask_shape padding_mask) = 4
                then Inr (BoolMask (astype_bool padding_mask))
                else Inr padding_mask)
               (\<lambda>padding_mask. and_mask casual_mask padding_mask))"


text \<open>The first statement block of \<open>get_masks\<close> (the causal mask), named for the proofs.\<close>

definition causal_part :: "nat \<Rightarrow> nat \<Rightarrow> nat \<Rightarrow> error + bool tensor" where
  "causal_part b s p =
     (let casual_mask = paddle_tril (paddle_ones [b, 1, s, s])
      in if p > 0 then paddle_concat_last (paddle_ones [b, 1, s, p]) casual_mask
         else Inr casual_mask)"

section \<open>External calls and their log\<close>

text \<open>
  The fused kernels, the embedding table, the rotary-embedding operator and the
  normalisation kernel are not code of this file: they are parameters of the model
  (record \<open>forward_ext\<close>). A run of \<open>forward\<close> is the list of the external calls it made,
  in order, with the exception it raised or the value it returned.
\<close>

record ('a, 'o, 'r, 's) block_args =
  ba_input_ids :: "int tensor option"
  ba_hidden_states :: "'a tensor"
  ba_cum_offsets :: "'o option"
  ba_padding_offset :: "'o option"
  ba_attn_mask :: "'a tensor"
  ba_caches :: "'o option"
  ba_pre_caches :: "'o option"
  ba_pre_caches_length :: int
  ba_seq_lens :: "'s option"
  ba_rotary_embs :: "'r"
  ba_rotary_emb_dims :: int
  ba_time_step :: "int option"

datatype ('a, 'o, 'r, 's) ext_call =
    PaddingOffsetCall
  | EmbeddingCall "int tensor"
  | RotaryCall "int tensor option" "'o option" nat int bool
  | BlockCall "('a, 'o, 'r, 's) block_args"
  | RmsNormCall "'a tensor"

type_synonym ('x, 'c) run = "'c list \<times> (error + 'x)"

definition ret :: "'x \<Rightarrow> ('x, 'c) run" where
  "ret x = ([], Inr x)"

definition lift_err :: "error + 'x \<Rightarrow> ('x, 'c) run" where
  "lift_err r = ([], r)"

definition call_ext :: "'c \<Rightarrow> 'x \<Rightarrow> ('x, 'c) run" where
  "call_ext c result = ([c], Inr result)"

definition then_run :: "('x, 'c) run \<Rightarrow> ('x \<Rightarrow> ('y, 'c) run) \<Rightarrow> ('y, 'c) run" where
  "then_run m f =
     (case m of
        (tr, Inl e) \<Rightarrow> (tr, Inl e)
      | (tr, Inr x) \<Rightarrow> (case f x of (tr', r) \<Rightarrow> (tr @ tr', r)))"

text \<open>
  \<open>fused_rms_norm\<close> returns a tensor or a tuple whose first component is the tensor;
  \<open>FusedQWenRMSNorm.forward\<close> takes \<open>result[0]\<close> of a tuple.
\<close>

datatype 'a norm_result = NormTensor "'a tensor" | NormTuple "'a tensor list"

record ('a, 'o, 'r, 's) forward_ext =
  get_padding_offset ::
    "int tensor option \<Rightarrow> 's \<Rightarrow> int \<Rightarrow> 's \<Rightarrow> int tensor \<times> 'o \<times> 'o"
  wte :: "int tensor \<Rightarrow> 'a tensor"
  fused_get_rotary_embedding :: "int tensor option \<Rightarrow> 'o option \<Rightarrow> nat \<Rightarrow> int \<Rightarrow> bool \<Rightarrow> 'r"
  transformer_block :: "('a, 'o, 'r, 's) block_args \<Rightarrow> 'a tensor"
  fused_rms_norm :: "'a tensor \<Rightarrow> 'a norm_result"
  reshape :: "'a tensor \<Rightarrow> nat list \<Rightarrow> 'a tensor"
  finfo_min :: "'a"

definition rms_norm_forward :: "('a, 'o, 'r, 's) forward_ext \<Rightarrow> 'a tensor \<Rightarrow> error + 'a tensor" where
  "rms_norm_forward ext x =
     (case fused_rms_norm ext x of
        NormTuple [] \<Rightarrow> Inl (IndexError ''tuple index out of range'')
      | NormTuple (r # rs) \<Rightarrow> Inr r
      | NormTensor r \<Rightarrow> Inr r)"

section \<open>QWenInferenceModel.forward\<close>

text \<open>
  The configuration fields the two \<open>forward\<close> methods read. \<open>num_hidden_layers\<close> is an
  integer: the constructor and \<open>set_state_dict\<close> iterate over \<open>range\<close> of it and
  \<open>get_cache_kvs_shape\<close> over \<open>range(config.num_hidden_layers)\<close>.
\<close>

record config =
  cfg_output_attentions :: bool
  cfg_output_hidden_states :: bool
  cfg_use_cache :: bool
  cfg_use_return_dict :: bool
  cfg_num_hidden_layers :: int
  cfg_tensor_parallel_output :: bool
  cfg_tensor_parallel_degree :: int

text \<open>
  The arguments of a call. \<open>None\<close> is the value \<open>None\<close>, which is also what an omitted
  argument is, except for \<open>output_attentions\<close> and \<open>return_dict\<close>, whose default is
  \<open>False\<close>. The vectors of sequence lengths have the type \<open>'s\<close>, which \<open>forward\<close> takes to
  be a list of words. \<open>fa_cache\<close> is \<open>kwargs["cache"]\<close>:
  the decoder phase reads \<open>past_key_values[0][0].shape[1]\<close> from it, so it is a sequence of
  sequences of tensors. The \<open>past_key_values\<close> parameter itself is overwritten before it
  is read and is left out. Values that the wrapper only hands on have the type \<open>'o\<close>.
\<close>

record ('a, 'o, 's) forward_args =
  fa_input_ids :: "int tensor option"
  fa_position_ids :: "'o option"
  fa_attention_mask :: "'a mask option"
  fa_inputs_embeds :: "'a tensor option"
  fa_use_cache :: "bool option"
  fa_cache_kvs :: "'o option"
  fa_pre_caches :: "'o option"
  fa_seq_len_encoder :: "'s option"
  fa_seq_len_decoder :: "'s option"
  fa_output_attentions :: "bool option"
  fa_output_hidden_states :: "bool option"
  fa_return_dict :: "bool option"
  fa_cache :: "'a tensor list list option"

text \<open>
  Results. A Python tuple of tensors and tuples is a \<open>pyv list\<close>; the non-dict result of
  \<open>forward\<close> is such a tuple, the dict result is \<open>BaseModelOutputWithPast\<close>.
\<close>

datatype 'a pyv = TensorV "'a tensor" | TupleV "'a pyv list"

record 'a base_output =
  bo_last_hidden_state :: "'a tensor"
  bo_past_key_values :: "'a pyv option"
  bo_hidden_states :: "'a pyv option"
  bo_attentions :: "'a pyv option"

datatype 'a model_output = TupleOut "'a pyv list" | ModelOut "'a base_output"

definition both_msg :: string where
  "both_msg = ''You cannot specify both input_ids and inputs_embeds at the same time''"

definition either_msg :: string where
  "either_msg = ''You have to specify either input_ids or inputs_embeds''"

text \<open>\<open>x if x is not None else default\<close>.\<close>

definition resolve :: "'x option \<Rightarrow> 'x \<Rightarrow> 'x" where
  "resolve x dflt = (case x of Some v \<Rightarrow> v | None \<Rightarrow> dflt)"

text \<open>Lines 251 to 254: the input-presence check.\<close>

definition check_inputs :: "'x option \<Rightarrow> 'y option \<Rightarrow> error + unit" where
  "check_inputs input_ids inputs_embeds =
     (if input_ids \<noteq> None \<and> inputs_embeds \<noteq> None then Inl (ValueError both_msg)
      else if input_ids = None \<and> inputs_embeds = None then Inl (ValueError either_msg)
      else Inr ())"

text \<open>
  Lines 263 to 268: the input shape. With \<open>inputs_embeds\<close>, the shape is unpacked into
  three names (a \<open>ValueError\<close> for any other rank) and the embeddings are flattened.
\<close>

definition input_shape_of ::
  "('a, 'o, 'r, 's) forward_ext \<Rightarrow> int tensor option \<Rightarrow> 'a tensor option
     \<Rightarrow> error + (nat list \<times> 'a tensor option)" where
  "input_shape_of ext input_ids inputs_embeds =
     (case input_ids of
        Some ids \<Rightarrow> Inr (shape ids, inputs_embeds)
      | None \<Rightarrow>
          (case inputs_embeds of
             Some e \<Rightarrow>
               (case shape e of
                  [batch, seq_len, hidden_dim] \<Rightarrow>
                    Inr (butlast (shape e), Some (reshape ext e [batch * seq_len, hidden_dim]))
                | _ \<Rightarrow> Inl (ValueError ''cannot unpack the shape into three values''))
           | None \<Rightarrow> Inr ([], None)))"

text \<open>Python's \<open>len\<close> of an integer raises.\<close>

definition len_of_int :: "int \<Rightarrow> error + nat" where
  "len_of_int n = Inl (TypeError ''object of type int has no len()'')"

text \<open>Indexing a Python list or tuple with a non-negative index.\<close>

definition py_index :: "'x list \<Rightarrow> nat \<Rightarrow> error + 'x" where
  "py_index xs i = (if i < length xs then Inr (xs ! i) else Inl (IndexError ''index out of range''))"

text \<open>Lines 270 to 274.\<close>

definition past_length_of :: "config \<Rightarrow> 'a tensor list list option \<Rightarrow> error + nat" where
  "past_length_of cfg past_key_values =
     (case past_key_values of
        None \<Rightarrow> bind_err (len_of_int (cfg_num_hidden_layers cfg)) (\<lambda>n. Inr 0)
      | Some pkv \<Rightarrow>
          bind_err (py_index pkv 0) (\<lambda>layer.
          bind_err (py_index layer 0) (\<lambda>t.
          py_index (shape t) 1)))"

definition paddle_zeros :: "nat list \<Rightarrow> 'a::zero tensor" where
  "paddle_zeros shp = \<lparr>shape = shp, entry = (\<lambda>idx. 0)\<rparr>"

definition paddle_full_like :: "'b tensor \<Rightarrow> 'a \<Rightarrow> 'a tensor" where
  "paddle_full_like t v = \<lparr>shape = shape t, entry = (\<lambda>idx. v)\<rparr>"

text \<open>\<open>paddle.where\<close> on three tensors of one shape.\<close>

definition paddle_where :: "bool tensor \<Rightarrow> 'a tensor \<Rightarrow> 'a tensor \<Rightarrow> 'a tensor" where
  "paddle_where c x y =
     \<lparr>shape = shape c, entry = (\<lambda>idx. if entry c idx then entry x idx else entry y idx)\<rparr>"

text \<open>Lines 287 to 292: the Boolean mask and its conversion to the hidden-state dtype.\<close>

definition dtype_mask ::
  "('a::zero, 'o, 'r, 's) forward_ext \<Rightarrow> nat list \<Rightarrow> nat \<Rightarrow> 'a mask option
     \<Rightarrow> error + 'a tensor" where
  "dtype_mask ext input_shape past_length attention_mask =
     bind_err (py_index input_shape 0) (\<lambda>batch_size.
     bind_err (py_index input_shape 1) (\<lambda>seq_length.
     bind_err (get_masks batch_size seq_length past_length attention_mask) (\<lambda>attention_mask.
       let zero = paddle_zeros (shape attention_mask);
           neg_inf = paddle_full_like attention_mask (finfo_min ext)
       in Inr (paddle_where attention_mask zero neg_inf))))"

text \<open>\<open>() if flag else None\<close>, and \<open>t + (x,)\<close> on a tuple \<open>t\<close>.\<close>

definition empty_tuple_if :: "bool \<Rightarrow> 'a pyv option" where
  "empty_tuple_if flag = (if flag then Some (TupleV []) else None)"

definition tuple_append :: "'a pyv option \<Rightarrow> 'a pyv \<Rightarrow> 'a pyv option" where
  "tuple_append t x =
     (case t of Some (TupleV xs) \<Rightarrow> Some (TupleV (xs @ [x])) | other \<Rightarrow> other)"

text \<open>Lines 333 to 341: the tuple keeps the components that are not \<open>None\<close>.\<close>

definition make_output ::
  "bool \<Rightarrow> 'a tensor \<Rightarrow> 'a pyv option \<Rightarrow> 'a pyv option \<Rightarrow> 'a pyv option
     \<Rightarrow> 'a model_output" where
  "make_output return_dict hidden_states presents all_hidden_states all_self_attentions =
     (if \<not> return_dict
      then TupleOut
             (List.map_filter id
                [Some (TensorV hidden_states), presents, all_hidden_states,
                 all_self_attentions])
      else ModelOut \<lparr>bo_last_hidden_state = hidden_states,
                      bo_past_key_values = presents,
                      bo_hidden_states = all_hidden_states,
                      bo_attentions = all_self_attentions\<rparr>)"

text \<open>
  The method. The cast of the mask to the hidden-state dtype at the call of the fused
  block is the identity, the mask having that dtype already.
\<close>

definition forward ::
  "('a::zero, 'o, 'r, 'w::len word list) forward_ext \<Rightarrow> config \<Rightarrow> nat
     \<Rightarrow> ('a, 'o, 'w word list) forward_args
     \<Rightarrow> ('a model_output, ('a, 'o, 'r, 'w word list) ext_call) run" where
  "forward ext cfg head_dim args =
     (let past_key_values = fa_cache args;
          is_decoder = (past_key_values \<noteq> None)
      in
      then_run (lift_err (check_inputs (fa_input_ids args) (fa_inputs_embeds args))) (\<lambda>_.
      let output_attentions = resolve (fa_output_attentions args) (cfg_output_attentions cfg);
          output_hidden_states =
            resolve (fa_output_hidden_states args) (cfg_output_hidden_states cfg);
          use_cache = resolve (fa_use_cache args) (cfg_use_cache cfg);
          return_dict = resolve (fa_return_dict args) (cfg_use_return_dict cfg)
      in
      then_run (lift_err (input_shape_of ext (fa_input_ids args) (fa_inputs_embeds args)))
        (\<lambda>(input_shape, inputs_embeds).
      then_run (lift_err (past_length_of cfg past_key_values)) (\<lambda>past_length.
      then_run
        (if \<not> is_decoder
         then (case fa_seq_len_encoder args of
                 None \<Rightarrow> lift_err (Inl (TypeError ''max of None''))
               | Some seq_lens \<Rightarrow>
                   then_run
                     (lift_err (remove_padding (get_padding_offset ext) (fa_input_ids args) seq_lens))
                     (\<lambda>(ids_remove_padding, padding_offset, cum_offsets).
                        call_ext PaddingOffsetCall
                          (Some ids_remove_padding, Some padding_offset, Some cum_offsets)))
         else ret (fa_input_ids args, None, None))
        (\<lambda>(ids_remove_padding, padding_offset, cum_offsets).
      then_run
        (case inputs_embeds of
           Some e \<Rightarrow> ret e
         | None \<Rightarrow>
             (case ids_remove_padding of
                Some ids \<Rightarrow> call_ext (EmbeddingCall ids) (wte ext ids)
              | None \<Rightarrow> lift_err (Inl (TypeError ''embedding of None''))))
        (\<lambda>hidden_states.
      then_run (lift_err (dtype_mask ext input_shape past_length (fa_attention_mask args)))
        (\<lambda>attention_mask.
      then_run
        (lift_err (if shape hidden_states = [] then Inl (IndexError ''index out of range'')
                   else Inr (input_shape @ [last (shape hidden_states)])))
        (\<lambda>output_shape.
      let presents = empty_tuple_if use_cache;
          all_hidden_states = empty_tuple_if output_hidden_states;
          all_self_attentions = empty_tuple_if output_attentions;
          seq_lens = (if is_decoder then fa_seq_len_decoder args else fa_seq_len_encoder args);
          position_offset =
            (if \<not> is_decoder \<and> fa_pre_caches args \<noteq> None then 128 else (0::int))
      in
      then_run
        (call_ext
           (RotaryCall (fa_input_ids args) (fa_position_ids args) head_dim position_offset True)
           (fused_get_rotary_embedding ext (fa_input_ids args) (fa_position_ids args) head_dim
              position_offset True))
        (\<lambda>new_rope.
      then_run
        (lift_err (if is_decoder
                   then (if shape attention_mask = [] then Inl (IndexError ''index out of range'')
                         else Inr (Some (int (last (shape attention_mask)) - 1)))
                   else Inr None))
        (\<lambda>time_step.
      let blk = \<lparr>ba_input_ids = fa_input_ids args,
                 ba_hidden_states = hidden_states,
                 ba_cum_offsets = cum_offsets,
                 ba_padding_offset = padding_offset,
                 ba_attn_mask = attention_mask,
                 ba_caches = fa_cache_kvs args,
                 ba_pre_caches = fa_pre_caches args,
                 ba_pre_caches_length = position_offset,
                 ba_seq_lens = seq_lens,
                 ba_rotary_embs = new_rope,
                 ba_rotary_emb_dims = 1,
                 ba_time_step = time_step\<rparr>
      in
      then_run (call_ext (BlockCall blk) (transformer_block ext blk)) (\<lambda>hidden_states.
      then_run (call_ext (RmsNormCall hidden_states) ()) (\<lambda>_.
      then_run (lift_err (rms_norm_forward ext hidden_states)) (\<lambda>hidden_states.
      let hidden_states = reshape ext hidden_states output_shape;
          all_hidden_states =
            (if output_hidden_states
             then tuple_append all_hidden_states (TensorV hidden_states)
             else all_hidden_states)
      in
      ret (make_output return_dict hidden_states presents all_hidden_states
             all_self_attentions))))))))))))))"

section \<open>QWenForCausalLMInferenceModel.forward\<close>

text \<open>
  \<open>lm_head\<close> and \<open>criterion\<close> are layers defined outside this file. The criterion returns a
  loss tensor, never \<open>None\<close>. \<open>labels\<close> is handed to the criterion unread (type \<open>'l\<close>).
\<close>

record ('a, 'l) lm_ext =
  lm_head :: "'a tensor \<Rightarrow> bool \<Rightarrow> 'a tensor"
  criterion :: "'a tensor \<Rightarrow> 'l \<Rightarrow> 'a tensor"

record 'a causal_lm_output =
  clm_loss :: "'a tensor option"
  clm_logits :: "'a tensor"
  clm_past_key_values :: "'a pyv option"
  clm_hidden_states :: "'a pyv option"
  clm_attentions :: "'a pyv option"

datatype 'a lm_output = LMTuple "'a pyv list" | LMOut "'a causal_lm_output"

text \<open>
  Indexing the result of the wrapped model: a tuple is indexed as it is, a model output
  through its tuple of the fields that are not \<open>None\<close>. Reading a field by name works on
  the model output only.
\<close>

definition to_tuple :: "'a base_output \<Rightarrow> 'a pyv list" where
  "to_tuple r =
     List.map_filter id
       [Some (TensorV (bo_last_hidden_state r)), bo_past_key_values r, bo_hidden_states r,
        bo_attentions r]"

fun output_items :: "'a model_output \<Rightarrow> 'a pyv list" where
  "output_items (TupleOut xs) = xs"
| "output_items (ModelOut r) = to_tuple r"

fun output_fields :: "'a model_output \<Rightarrow> error + 'a base_output" where
  "output_fields (TupleOut xs) = Inl (AttributeError ''tuple object has no attribute past_key_values'')"
| "output_fields (ModelOut r) = Inr r"

fun as_tensor :: "'a pyv \<Rightarrow> error + 'a tensor" where
  "as_tensor (TensorV t) = Inr t"
| "as_tensor (TupleV xs) = Inl (TypeError ''lm_head applied to a tuple'')"

text \<open>
  The arguments of the call \<open>self.qwen(...)\<close>: the three flags are resolved against the
  configuration first, every other argument is handed on.
\<close>

definition qwen_call_args ::
  "config \<Rightarrow> ('a, 'o, 's) forward_args \<Rightarrow> ('a, 'o, 's) forward_args" where
  "qwen_call_args cfg args =
     (let output_attentions = resolve (fa_output_attentions args) (cfg_output_attentions cfg);
          output_hidden_states =
            resolve (fa_output_hidden_states args) (cfg_output_hidden_states cfg);
          return_dict = resolve (fa_return_dict args) (cfg_use_return_dict cfg)
      in args\<lparr>fa_output_attentions := Some output_attentions,
               fa_output_hidden_states := Some output_hidden_states,
               fa_return_dict := Some return_dict\<rparr>)"

definition causal_lm_forward ::
  "('a, 'l) lm_ext \<Rightarrow> ('a::zero, 'o, 'r, 'w::len word list) forward_ext \<Rightarrow> config \<Rightarrow> nat
     \<Rightarrow> ('a, 'o, 'w word list) forward_args \<Rightarrow> 'l option
     \<Rightarrow> ('a lm_output, ('a, 'o, 'r, 'w word list) ext_call) run" where
  "causal_lm_forward lm ext cfg head_dim args labels =
     (let return_dict = resolve (fa_return_dict args) (cfg_use_return_dict cfg)
      in
      then_run (forward ext cfg head_dim (qwen_call_args cfg args)) (\<lambda>outputs.
      then_run (lift_err (bind_err (py_index (output_items outputs) 0) as_tensor))
        (\<lambda>hidden_states.
      let tensor_parallel_output =
            (cfg_tensor_parallel_output cfg \<and> labels \<noteq> None
             \<and> cfg_tensor_parallel_degree cfg > 1);
          lm_logits = lm_head lm hidden_states tensor_parallel_output;
          loss = (case labels of None \<Rightarrow> None | Some l \<Rightarrow> Some (criterion lm lm_logits l))
      in
      if \<not> return_dict
      then (let output = TensorV lm_logits # drop 1 (output_items outputs)
            in ret (LMTuple (case loss of Some v \<Rightarrow> TensorV v # output | None \<Rightarrow> output)))
      else then_run (lift_err (output_fields outputs)) (\<lambda>r.
             ret (LMOut \<lparr>clm_loss = loss,
                         clm_logits = lm_logits,
                         clm_past_key_values = bo_past_key_values r,
                         clm_hidden_states = bo_hidden_states r,
                         clm_attentions = bo_attentions r\<rparr>)))))"

section \<open>prepare_inputs_for_generation\<close>

text \<open>
  \<open>(mask - 1) * 1e4\<close> on a tensor works entry by entry. The element type is any ring, so
  the statements hold for whichever number type the mask has.
\<close>

definition tensor_sub_scalar :: "'a::minus tensor \<Rightarrow> 'a \<Rightarrow> 'a tensor" where
  "tensor_sub_scalar t c = \<lparr>shape = shape t, entry = (\<lambda>idx. entry t idx - c)\<rparr>"

definition tensor_mul_scalar :: "'a::times tensor \<Rightarrow> 'a \<Rightarrow> 'a tensor" where
  "tensor_mul_scalar t c = \<lparr>shape = shape t, entry = (\<lambda>idx. entry t idx * c)\<rparr>"

text \<open>
  The keyword arguments the method reads with \<open>kwargs.get\<close>, and the dictionary it
  returns. Values that are only handed on have the type \<open>'o\<close>; \<open>None\<close> is an absent or
  \<open>None\<close> value.
\<close>

record ('a, 'o) gen_kwargs =
  kw_position_ids :: "'o option"
  kw_attention_mask :: "'a tensor option"
  kw_cache :: "'o option"
  kw_pre_caches :: "'o option"
  kw_inputs_embeds :: "'o option"

record ('a, 'o) model_inputs =
  mi_input_ids :: "'o option"
  mi_inputs_embeds :: "'o option"
  mi_position_ids :: "'o option"
  mi_attention_mask :: "'a tensor"
  mi_cache_kvs :: "'o option"
  mi_seq_len_encoder :: "'o option"
  mi_seq_len_decoder :: "'o option"
  mi_cache :: "'o option"
  mi_pre_caches :: "'o option"

definition prepare_inputs_for_generation ::
  "'o option \<Rightarrow> 'o option \<Rightarrow> 'o option \<Rightarrow> 'o option \<Rightarrow> 'o option \<Rightarrow> 'o option
     \<Rightarrow> 'a::ring_1 tensor \<Rightarrow> ('a, 'o) gen_kwargs \<Rightarrow> error + ('a, 'o) model_inputs" where
  "prepare_inputs_for_generation input_ids cache_kvs seq_len_encoder seq_len_decoder tgt_ids
       tgt_pos tgt_generation_mask kwargs =
     (let position_ids = kw_position_ids kwargs;
          attention_mask = kw_attention_mask kwargs;
          cache = kw_cache kwargs;
          pre_caches = kw_pre_caches kwargs;
          inputs_embeds = kw_inputs_embeds kwargs
      in
      bind_err
        (if cache \<noteq> None
         then Inr (tgt_ids, tgt_pos,
                   tensor_mul_scalar (tensor_sub_scalar tgt_generation_mask 1) 10000, None)
         else (case attention_mask of
                 None \<Rightarrow> Inl (TypeError ''unsupported operand types for -: NoneType and int'')
               | Some m \<Rightarrow>
                   Inr (input_ids, position_ids,
                        tensor_mul_scalar (tensor_sub_scalar m 1) 10000, inputs_embeds)))
        (\<lambda>(input_ids, position_ids, attention_mask, inputs_embeds).
           Inr \<lparr>mi_input_ids = input_ids,
                mi_inputs_embeds = inputs_embeds,
                mi_position_ids = position_ids,
                mi_attention_mask = attention_mask,
                mi_cache_kvs = cache_kvs,
                mi_seq_len_encoder = seq_len_encoder,
                mi_seq_len_decoder = seq_len_decoder,
                mi_cache = cache,
                mi_pre_caches = pre_caches\<rparr>))"

section \<open>QWenInferenceModel.set_state_dict\<close>

text \<open>
  The parameters the method writes, with the three attributes it reads. The slots of
  the fused block are lists indexed by the layer.
\<close>

record 't qwen_model =
  hidden_size :: int
  num_attention_heads :: int
  num_layers :: int
  wte_weight :: "'t"
  ln_f_weight :: "'t"
  ln_scales :: "'t list"
  qkv_weights :: "'t list"
  qkv_biases :: "'t list"
  linear_weights :: "'t list"
  ffn_ln_scales :: "'t list"
  ffn1_weights :: "'t list"
  ffn2_weights :: "'t list"

text \<open>
  The framework's part: \<open>paddle.to_tensor(array, dtype=...)\<close>, the \<open>dtype\<close> attribute of a
  parameter, \<open>np.concatenate([a, b], axis=-1)\<close> and \<open>parameter.set_value(value, **keywords)\<close>,
  which gives the new content of the parameter or raises. The arrays of the state
  dictionary have the type \<open>'n\<close>, the framework's tensors \<open>'t\<close>, its dtypes \<open>'d\<close>. The only
  keyword this file ever passes to \<open>set_value\<close> is \<open>dtype\<close>.
\<close>

record ('n, 't, 'd) paddle_ext =
  to_tensor :: "'n \<Rightarrow> 'd option \<Rightarrow> 't"
  dtype_of :: "'t \<Rightarrow> 'd"
  np_concatenate :: "'n \<Rightarrow> 'n \<Rightarrow> 'n"
  set_value :: "'t \<Rightarrow> 't \<Rightarrow> 'd option \<Rightarrow> error + 't"

text \<open>
  \<open>Tensor.set_value(value)\<close> as the framework declares it: it stores the value, and it has
  no other parameter, so a call with a keyword raises as any Python call with an
  unexpected keyword does. Every call of this file but the one for \<open>ln_f.weight\<close> passes
  the value alone. The framework's comparison of the value's shape and dtype with the
  parameter's, which can raise as well, is left out.
\<close>

definition tensor_set_value :: "'t \<Rightarrow> 't \<Rightarrow> 'd option \<Rightarrow> error + 't" where
  "tensor_set_value param v dtype_keyword =
     (case dtype_keyword of
        None \<Rightarrow> Inr v
      | Some d \<Rightarrow> Inl (TypeError ''set_value() got an unexpected keyword argument dtype''))"

text \<open>A \<open>set_value\<close> that would accept the keyword and store the value all the same.\<close>

definition lenient_set_value :: "'t \<Rightarrow> 't \<Rightarrow> 'd option \<Rightarrow> error + 't" where
  "lenient_set_value param v dtype_keyword = Inr v"

text \<open>Decimal digits of a natural number, for \<open>"qwen.h.{}.".format(idx)\<close>.\<close>

definition digit_char :: "nat \<Rightarrow> char" where
  "digit_char n = ''0123456789'' ! (n mod 10)"

function str_of_nat :: "nat \<Rightarrow> string" where
  "str_of_nat n =
     (if n < 10 then [digit_char n] else str_of_nat (n div 10) @ [digit_char (n mod 10)])"
  by pat_completeness auto
termination
  by (relation "measure id") auto

declare str_of_nat.simps [simp del]

definition layer_key :: "nat \<Rightarrow> string \<Rightarrow> string" where
  "layer_key idx name = ''qwen.h.'' @ str_of_nat idx @ ''.'' @ name"

text \<open>\<open>state_dict[key]\<close> raises \<open>KeyError\<close> on a missing key.\<close>

definition lookup :: "(string \<rightharpoonup> 'n) \<Rightarrow> string \<Rightarrow> error + 'n" where
  "lookup state_dict key = (case state_dict key of None \<Rightarrow> Inl (KeyError key) | Some v \<Rightarrow> Inr v)"

text \<open>\<open>slots[idx].set_value(v)\<close>.\<close>

definition set_slot ::
  "('n, 't, 'd) paddle_ext \<Rightarrow> 't list \<Rightarrow> nat \<Rightarrow> 't \<Rightarrow> error + 't list" where
  "set_slot ext slots idx v =
     bind_err (py_index slots idx) (\<lambda>slot.
     bind_err (set_value ext slot v None) (\<lambda>new. Inr (slots[idx := new])))"

text \<open>One iteration of the loop over the layers (lines 164 to 192).\<close>

definition set_layer ::
  "('n, 't, 'd) paddle_ext \<Rightarrow> (string \<rightharpoonup> 'n) \<Rightarrow> nat \<Rightarrow> 't qwen_model \<Rightarrow> error + 't qwen_model" where
  "set_layer ext state_dict idx self =
     bind_err (lookup state_dict (layer_key idx ''ln_1.weight'')) (\<lambda>a1.
     bind_err (py_index (ln_scales self) idx) (\<lambda>s1.
     let ln_scale = to_tensor ext a1 (Some (dtype_of ext s1)) in
     bind_err (lookup state_dict (layer_key idx ''attn.c_attn.weight'')) (\<lambda>a2.
     let qkv_weight = to_tensor ext a2 None in
     bind_err (lookup state_dict (layer_key idx ''attn.c_attn.bias'')) (\<lambda>a3.
     let qkv_bias = to_tensor ext a3 None in
     bind_err (lookup state_dict (layer_key idx ''attn.c_proj.weight'')) (\<lambda>a4.
     let linear_weight = to_tensor ext a4 None in
     bind_err (lookup state_dict (layer_key idx ''ln_2.weight'')) (\<lambda>a5.
     bind_err (py_index (ffn_ln_scales self) idx) (\<lambda>s5.
     let ffn_ln_scale = to_tensor ext a5 (Some (dtype_of ext s5)) in
     bind_err (lookup state_dict (layer_key idx ''mlp.w1.weight'')) (\<lambda>up_weight.
     bind_err (lookup state_dict (layer_key idx ''mlp.w2.weight'')) (\<lambda>gate_weight.
     let concated_ffn1_weight = np_concatenate ext up_weight gate_weight;
         ffn1_weight = to_tensor ext concated_ffn1_weight None in
     bind_err (lookup state_dict (layer_key idx ''mlp.c_proj.weight'')) (\<lambda>a8.
     let ffn2_weight = to_tensor ext a8 None in
     bind_err (set_slot ext (ln_scales self) idx ln_scale) (\<lambda>l1.
     bind_err (set_slot ext (qkv_weights self) idx qkv_weight) (\<lambda>l2.
     bind_err (set_slot ext (qkv_biases self) idx qkv_bias) (\<lambda>l3.
     bind_err (set_slot ext (linear_weights self) idx linear_weight) (\<lambda>l4.
     bind_err (set_slot ext (ffn_ln_scales self) idx ffn_ln_scale) (\<lambda>l5.
     bind_err (set_slot ext (ffn1_weights self) idx ffn1_weight) (\<lambda>l6.
     bind_err (set_slot ext (ffn2_weights self) idx ffn2_weight) (\<lambda>l7.
       Inr (self\<lparr>ln_scales := l1, qkv_weights := l2, qkv_biases := l3,
                  linear_weights := l4, ffn_ln_scales := l5, ffn1_weights := l6,
                  ffn2_weights := l7\<rparr>))))))))))))))))))"

primrec set_layers ::
  "('n, 't, 'd) paddle_ext \<Rightarrow> (string \<rightharpoonup> 'n) \<Rightarrow> nat list \<Rightarrow> 't qwen_model
     \<Rightarrow> error + 't qwen_model" where
  "set_layers ext state_dict [] self = Inr self"
| "set_layers ext state_dict (idx # rest) self =
     bind_err (set_layer ext state_dict idx self) (set_layers ext state_dict rest)"

definition set_state_dict ::
  "('n, 't, 'd) paddle_ext \<Rightarrow> (string \<rightharpoonup> 'n) \<Rightarrow> 't qwen_model \<Rightarrow> error + 't qwen_model" where
  "set_state_dict ext state_dict self =
     bind_err
       (if num_attention_heads self = 0
        then Inl (ZeroDivisionError ''integer division or modulo by zero'')
        else Inr (hidden_size self div num_attention_heads self))
       (\<lambda>head_size.
     bind_err (lookup state_dict ''qwen.wte.weight'') (\<lambda>w.
     bind_err (set_value ext (wte_weight self) (to_tensor ext w None) None) (\<lambda>new_wte.
     let self = self\<lparr>wte_weight := new_wte\<rparr> in
     bind_err (lookup state_dict ''qwen.ln_f.weight'') (\<lambda>l.
     bind_err
       (set_value ext (ln_f_weight self) (to_tensor ext l None)
          (Some (dtype_of ext (ln_f_weight self))))
       (\<lambda>new_ln_f.
     let self = self\<lparr>ln_f_weight := new_ln_f\<rparr> in
     set_layers ext state_dict [0..<nat (num_layers self)] self)))))"

text \<open>
  What the claim says a layer's slots hold after loading, written from the claim: the
  tensors named in the state dictionary, and for \<open>ffn1_weights\<close> the concatenation of
  \<open>mlp.w1.weight\<close> and \<open>mlp.w2.weight\<close>. \<open>layer_names\<close> are the eight names a layer reads.
\<close>

definition layer_names :: "string list" where
  "layer_names =
     [''ln_1.weight'', ''attn.c_attn.weight'', ''attn.c_attn.bias'', ''attn.c_proj.weight'',
      ''ln_2.weight'', ''mlp.w1.weight'', ''mlp.w2.weight'', ''mlp.c_proj.weight'']"

definition layer_keys_present :: "(string \<rightharpoonup> 'n) \<Rightarrow> nat \<Rightarrow> bool" where
  "layer_keys_present state_dict idx \<longleftrightarrow>
     list_all (\<lambda>name. state_dict (layer_key idx name) \<noteq> None) layer_names"

definition slots_len :: "'t qwen_model \<Rightarrow> nat" where
  "slots_len self =
     Min {length (ln_scales self), length (qkv_weights self), length (qkv_biases self),
          length (linear_weights self), length (ffn_ln_scales self),
          length (ffn1_weights self), length (ffn2_weights self)}"

definition named :: "(string \<rightharpoonup> 'n) \<Rightarrow> nat \<Rightarrow> string \<Rightarrow> 'n" where
  "named state_dict idx name = the (state_dict (layer_key idx name))"

definition loaded_layer ::
  "('n, 't, 'd) paddle_ext \<Rightarrow> (string \<rightharpoonup> 'n) \<Rightarrow> nat \<Rightarrow> 't qwen_model \<Rightarrow> 't qwen_model" where
  "loaded_layer ext state_dict idx self =
     self\<lparr>ln_scales := (ln_scales self)
              [idx := to_tensor ext (named state_dict idx ''ln_1.weight'')
                        (Some (dtype_of ext (ln_scales self ! idx)))],
          qkv_weights := (qkv_weights self)
              [idx := to_tensor ext (named state_dict idx ''attn.c_attn.weight'') None],
          qkv_biases := (qkv_biases self)
              [idx := to_tensor ext (named state_dict idx ''attn.c_attn.bias'') None],
          linear_weights := (linear_weights self)
              [idx := to_tensor ext (named state_dict idx ''attn.c_proj.weight'') None],
          ffn_ln_scales := (ffn_ln_scales self)
              [idx := to_tensor ext (named state_dict idx ''ln_2.weight'')
                        (Some (dtype_of ext (ffn_ln_scales self ! idx)))],
          ffn1_weights := (ffn1_weights self)
              [idx := to_tensor ext
                        (np_concatenate ext (named state_dict idx ''mlp.w1.weight'')
                           (named state_dict idx ''mlp.w2.weight'')) None],
          ffn2_weights := (ffn2_weights self)
              [idx := to_tensor ext (named state_dict idx ''mlp.c_proj.weight'') None]\<rparr>"

text \<open>\<open>loaded_slots_at ext sd old new idx\<close>: in \<open>new\<close>, the seven slots of layer \<open>idx\<close> hold the
  tensors the claim names (the dtypes are those of the slots of \<open>old\<close>).\<close>

definition loaded_slots_at ::
  "('n, 't, 'd) paddle_ext \<Rightarrow> (string \<rightharpoonup> 'n) \<Rightarrow> 't qwen_model \<Rightarrow> 't qwen_model \<Rightarrow> nat \<Rightarrow> bool" where
  "loaded_slots_at ext sd old new idx \<longleftrightarrow>
     ln_scales new ! idx
       = to_tensor ext (named sd idx ''ln_1.weight'') (Some (dtype_of ext (ln_scales old ! idx)))
   \<and> qkv_weights new ! idx = to_tensor ext (named sd idx ''attn.c_attn.weight'') None
   \<and> qkv_biases new ! idx = to_tensor ext (named sd idx ''attn.c_attn.bias'') None
   \<and> linear_weights new ! idx = to_tensor ext (named sd idx ''attn.c_proj.weight'') None
   \<and> ffn_ln_scales new ! idx
       = to_tensor ext (named sd idx ''ln_2.weight'')
           (Some (dtype_of ext (ffn_ln_scales old ! idx)))
   \<and> ffn1_weights new ! idx
       = to_tensor ext
           (np_concatenate ext (named sd idx ''mlp.w1.weight'') (named sd idx ''mlp.w2.weight''))
           None
   \<and> ffn2_weights new ! idx = to_tensor ext (named sd idx ''mlp.c_proj.weight'') None"

section \<open>Properties of runs\<close>

text \<open>
  \<open>run_sat C Q E m\<close>: every external call of the run \<open>m\<close> satisfies \<open>C\<close>, and its outcome
  satisfies \<open>Q\<close> when it is a value and \<open>E\<close> when it is an exception. \<open>check_error\<close>
  singles out the two exceptions of the input-presence check, and \<open>block_ok\<close> says what
  the fused block is handed.
\<close>

definition run_sat ::
  "('c \<Rightarrow> bool) \<Rightarrow> ('x \<Rightarrow> bool) \<Rightarrow> (error \<Rightarrow> bool) \<Rightarrow> ('x, 'c) run \<Rightarrow> bool" where
  "run_sat C Q E m \<longleftrightarrow>
     list_all C (fst m) \<and> (case snd m of Inl e \<Rightarrow> E e | Inr x \<Rightarrow> Q x)"

definition check_error :: "error \<Rightarrow> bool" where
  "check_error e \<longleftrightarrow> e = ValueError both_msg \<or> e = ValueError either_msg"

definition block_ok ::
  "('a::zero, 'o, 'r, 's) forward_ext \<Rightarrow> ('a, 'o, 's) forward_args
     \<Rightarrow> ('a, 'o, 'r, 's) ext_call \<Rightarrow> bool" where
  "block_ok ext args c \<longleftrightarrow>
     (case c of
        BlockCall blk \<Rightarrow>
          ba_pre_caches_length blk = 0
          \<and> (\<exists>inshape p. dtype_mask ext inshape p (fa_attention_mask args)
                            = Inr (ba_attn_mask blk))
      | _ \<Rightarrow> True)"

section \<open>Example inputs\<close>

text \<open>
  A small instance on which the theorems are exercised: integers stand for the
  hidden-state numbers, the embedding appends an axis of size 2, the fused block returns
  its hidden states, and the cache holds one layer whose tensors have 3 past positions.
\<close>

definition example_ext :: "(int, nat, nat, 32 word list) forward_ext" where
  "example_ext =
     \<lparr>get_padding_offset =
        (\<lambda>ids cum tok seq. (\<lparr>shape = [nat tok], entry = (\<lambda>idx. 0)\<rparr>, 0, 0)),
      wte = (\<lambda>ids. \<lparr>shape = shape ids @ [2], entry = (\<lambda>idx. entry ids (butlast idx))\<rparr>),
      fused_get_rotary_embedding = (\<lambda>ids pos hd off neox. nat off),
      transformer_block = (\<lambda>blk. ba_hidden_states blk),
      fused_rms_norm = (\<lambda>x. NormTuple [x]),
      reshape = (\<lambda>t shp. \<lparr>shape = shp, entry = entry t\<rparr>),
      finfo_min = - 1000\<rparr>"

definition example_cfg :: config where
  "example_cfg =
     \<lparr>cfg_output_attentions = False, cfg_output_hidden_states = False,
      cfg_use_cache = True, cfg_use_return_dict = False, cfg_num_hidden_layers = 2,
      cfg_tensor_parallel_output = False, cfg_tensor_parallel_degree = 1\<rparr>"

definition example_ids :: "int tensor" where
  "example_ids = \<lparr>shape = [2, 1], entry = (\<lambda>idx. 7)\<rparr>"

definition example_kv :: "int tensor" where
  "example_kv = \<lparr>shape = [2, 3, 4, 8], entry = (\<lambda>idx. 0)\<rparr>"

definition decoder_args :: "(int, nat, 32 word list) forward_args" where
  "decoder_args =
     \<lparr>fa_input_ids = Some example_ids, fa_position_ids = None, fa_attention_mask = None,
      fa_inputs_embeds = None, fa_use_cache = None, fa_cache_kvs = Some 5,
      fa_pre_caches = None, fa_seq_len_encoder = Some [1, 1],
      fa_seq_len_decoder = Some [3, 3], fa_output_attentions = Some False,
      fa_output_hidden_states = None, fa_return_dict = Some False,
      fa_cache = Some [[example_kv, example_kv]]\<rparr>"

definition encoder_args :: "(int, nat, 32 word list) forward_args" where
  "encoder_args = decoder_args\<lparr>fa_cache := None, fa_pre_caches := Some 3\<rparr>"

text \<open>A padding mask with one zero, at row 1 and column 2.\<close>

definition example_mask :: "int tensor" where
  "example_mask = \<lparr>shape = [2, 4], entry = (\<lambda>idx. if idx = [1, 2] then 0 else 1)\<rparr>"


text \<open>A language-model head that returns its input, and a criterion that returns the
  label as a scalar.\<close>

definition example_lm :: "(int, int) lm_ext" where
  "example_lm =
     \<lparr>lm_head = (\<lambda>h tensor_parallel_output. h),
      criterion = (\<lambda>logits label. \<lparr>shape = [], entry = (\<lambda>idx. label)\<rparr>)\<rparr>"

text \<open>Keyword arguments of \<open>prepare_inputs_for_generation\<close> for the two phases.\<close>

definition decoder_kwargs :: "(int, nat) gen_kwargs" where
  "decoder_kwargs =
     \<lparr>kw_position_ids = Some 11, kw_attention_mask = None, kw_cache = Some 0,
      kw_pre_caches = None, kw_inputs_embeds = Some 13\<rparr>"

definition encoder_kwargs :: "(int, nat) gen_kwargs" where
  "encoder_kwargs =
     \<lparr>kw_position_ids = Some 11, kw_attention_mask = Some example_mask, kw_cache = None,
      kw_pre_caches = None, kw_inputs_embeds = Some 13\<rparr>"

text \<open>
  A model of one layer whose slots hold empty arrays, a framework whose arrays and tensors
  are lists of integers, and a state dictionary with the ten keys of a one-layer model.
\<close>

definition example_paddle :: "(int list, int list, nat) paddle_ext" where
  "example_paddle =
     \<lparr>to_tensor = (\<lambda>a d. a), dtype_of = (\<lambda>t. 0), np_concatenate = (\<lambda>a b. a @ b),
      set_value = tensor_set_value\<rparr>"

definition example_model :: "int list qwen_model" where
  "example_model =
     \<lparr>hidden_size = 8, num_attention_heads = 2, num_layers = 1,
      wte_weight = [], ln_f_weight = [], ln_scales = [[]], qkv_weights = [[]],
      qkv_biases = [[]], linear_weights = [[]], ffn_ln_scales = [[]], ffn1_weights = [[]],
      ffn2_weights = [[]]\<rparr>"

definition example_state_dict :: "string \<rightharpoonup> int list" where
  "example_state_dict =
     map_of
       [(''qwen.wte.weight'', [1]), (''qwen.ln_f.weight'', [2]),
        (''qwen.h.0.ln_1.weight'', [3]), (''qwen.h.0.attn.c_attn.weight'', [4]),
        (''qwen.h.0.attn.c_attn.bias'', [5]), (''qwen.h.0.attn.c_proj.weight'', [6]),
        (''qwen.h.0.ln_2.weight'', [7]), (''qwen.h.0.mlp.w1.weight'', [8]),
        (''qwen.h.0.mlp.w2.weight'', [9]), (''qwen.h.0.mlp.c_proj.weight'', [10])]"

text \<open>A call with \<open>inputs_embeds\<close> of rank 2 and no \<open>input_ids\<close>.\<close>

definition rank2_args :: "(int, nat, 32 word list) forward_args" where
  "rank2_args = decoder_args\<lparr>fa_input_ids := None, fa_inputs_embeds := Some example_mask\<rparr>"

text \<open>
  Two \<open>int32\<close> vectors of sequence lengths, the second with the largest \<open>int32\<close> value in
  it, and a padding-offset operator that returns the numbers it is handed.
\<close>

definition example_seq :: "32 word list" where
  "example_seq = [3, 1, 2]"

definition wrap_seq :: "32 word list" where
  "wrap_seq = [0, 2147483647, 0]"

definition echo_offsets ::
  "unit \<Rightarrow> 32 word list \<Rightarrow> int \<Rightarrow> 32 word list \<Rightarrow> 32 word list \<times> int \<times> 32 word list" where
  "echo_offsets ids cum tok seq = (cum, tok, seq)"

section \<open>Facts about the vector operations\<close>

lemma length_cumsum_from: "length (cumsum_from acc xs) = length xs"
  by (induction xs arbitrary: acc) simp_all

lemma nth_cumsum_from:
  "i < length xs \<Longrightarrow> cumsum_from acc xs ! i = acc + (\<Sum>j\<le>i. xs ! j)"
proof (induction xs arbitrary: acc i)
  case Nil
  then show ?case by simp
next
  case (Cons x xs)
  show ?case
  proof (cases i)
    case 0
    then show ?thesis by simp
  next
    case (Suc k)
    with Cons.prems have k: "k < length xs" by simp
    have "(\<Sum>j\<le>Suc k. (x # xs) ! j) = x + (\<Sum>j\<le>k. xs ! j)"
      by (simp add: sum.atMost_Suc_shift del: sum.atMost_Suc)
    with Cons.IH [OF k, of "acc + x"] Suc show ?thesis by (simp add: add.assoc)
  qed
qed

lemma sint_smax: "sint (smax a b) = max (sint a) (sint b)"
  by (simp add: smax_def max_def)

lemma sint_fold_smax: "sint (fold smax xs x) = Max (sint ` set (x # xs))"
proof (induction xs arbitrary: x)
  case Nil
  then show ?case by simp
next
  case (Cons y ys)
  have "Max (sint ` set (smax y x # ys)) = Max (sint ` set (x # y # ys))"
    by (cases "ys = []") (simp_all add: sint_smax max.commute max.assoc max.left_commute)
  with Cons.IH [of "smax y x"] show ?case by simp
qed

lemma paddle_max_value:
  "xs \<noteq> [] \<Longrightarrow> \<exists>m. paddle_max xs = Inr m \<and> sint m = Max (sint ` set xs)"
proof (cases xs)
  case Nil
  assume "xs \<noteq> []"
  with Nil show ?thesis by simp
next
  case (Cons y ys)
  have r: "paddle_max xs = Inr (fold smax ys y)"
    by (simp only: Cons paddle_max.simps)
  have v: "sint (fold smax ys y) = Max (sint ` set xs)"
    unfolding Cons by (rule sint_fold_smax)
  from r v show ?thesis
    by (intro exI [of _ "fold smax ys y"] conjI)
qed

lemma word_of_int_sint_id: "word_of_int (sint a) = (a :: 'w::len word)"
  by (simp only: scast_eq [symmetric] scast_id)

lemma word_diff_sint: "(a - b :: 'w::len word) = word_of_int (sint a - sint b)"
  by (simp only: of_int_diff word_of_int_sint_id)

text \<open>What the code computes on any vector: the sums, wrapped to the width.\<close>

lemma cumsum_offsets_wrap:
  "paddle_cumsum (scalar_minus m seq)
     = map (\<lambda>i. word_of_int (\<Sum>j\<le>i. sint m - sint (seq ! j))) [0..<length seq]"
proof (rule nth_equalityI)
  show "length (paddle_cumsum (scalar_minus m seq))
          = length (map (\<lambda>i. word_of_int (\<Sum>j\<le>i. sint m - sint (seq ! j)) :: 'a word)
              [0..<length seq])"
    by (simp add: paddle_cumsum_def scalar_minus_def length_cumsum_from)
next
  fix i assume "i < length (paddle_cumsum (scalar_minus m seq))"
  then have i: "i < length seq"
    by (simp add: paddle_cumsum_def scalar_minus_def length_cumsum_from)
  then have "cumsum_from 0 (map (\<lambda>x. m - x) seq) ! i = 0 + (\<Sum>j\<le>i. map (\<lambda>x. m - x) seq ! j)"
    by (intro nth_cumsum_from) simp
  also have "\<dots> = (\<Sum>j\<le>i. m - seq ! j)"
    using i by (intro trans [OF add_0] sum.cong) simp_all
  also have "\<dots> = (\<Sum>j\<le>i. word_of_int (sint m - sint (seq ! j)))"
    by (simp only: word_diff_sint [symmetric])
  also have "\<dots> = word_of_int (\<Sum>j\<le>i. sint m - sint (seq ! j))"
    by (simp only: of_int_sum)
  finally show "paddle_cumsum (scalar_minus m seq) ! i
      = map (\<lambda>i. word_of_int (\<Sum>j\<le>i. sint m - sint (seq ! j))) [0..<length seq] ! i"
    using i by (simp add: paddle_cumsum_def scalar_minus_def)
qed

lemma sint_word_of_int_in_range:
  "- (2 ^ (LENGTH('w::len) - 1)) \<le> k \<Longrightarrow> k < 2 ^ (LENGTH('w) - 1) \<Longrightarrow>
     sint (word_of_int k :: 'w word) = k"
  by (simp add: sint_sbintrunc' signed_take_bit_int_eq_self)

lemma sum_list_words: "(sum_list xs :: 'w::len word) = word_of_int (\<Sum>x\<leftarrow>xs. sint x)"
  by (induction xs) simp_all

lemma sum_list_scast:
  "(sum_list (map scast xs) :: 'v::len word)
     = word_of_int (\<Sum>x\<leftarrow>(xs :: 'w::len word list). sint x)"
proof (induction xs)
  case Nil
  then show ?case by simp
next
  case (Cons x xs)
  have "(scast x :: 'v word) + word_of_int (\<Sum>x\<leftarrow>xs. sint x)
          = word_of_int (sint x) + word_of_int (\<Sum>x\<leftarrow>xs. sint x)"
    by (simp only: scast_eq)
  also have "\<dots> = word_of_int (sint x + (\<Sum>x\<leftarrow>xs. sint x))"
    by (simp only: of_int_add)
  finally show ?case using Cons.IH by simp
qed

lemma paddle_sum_wrap:
  "paddle_sum (xs :: 'w::len word list) =
     (if LENGTH('w) = 32 then sint (word_of_int (\<Sum>x\<leftarrow>xs. sint x) :: 64 word)
      else sint (word_of_int (\<Sum>x\<leftarrow>xs. sint x) :: 'w word))"
  unfolding paddle_sum_def sum_list_scast sum_list_words [symmetric] ..

lemma paddle_sum_value:
  fixes xs :: "'w::len word list"
  assumes "- (2 ^ (sum_bits xs - 1)) \<le> (\<Sum>x\<leftarrow>xs. sint x)"
    and "(\<Sum>x\<leftarrow>xs. sint x) < 2 ^ (sum_bits xs - 1)"
  shows "paddle_sum xs = (\<Sum>x\<leftarrow>xs. sint x)"
proof (cases "LENGTH('w) = 32")
  case True
  with assms have "- (2 ^ (LENGTH(64) - 1)) \<le> (\<Sum>x\<leftarrow>xs. sint x)"
    and "(\<Sum>x\<leftarrow>xs. sint x) < 2 ^ (LENGTH(64) - 1)"
    by (simp_all add: sum_bits_def)
  from sint_word_of_int_in_range [OF this] True show ?thesis
    by (simp add: paddle_sum_wrap)
next
  case False
  with assms have "- (2 ^ (LENGTH('w) - 1)) \<le> (\<Sum>x\<leftarrow>xs. sint x)"
    and "(\<Sum>x\<leftarrow>xs. sint x) < 2 ^ (LENGTH('w) - 1)"
    by (simp_all add: sum_bits_def)
  from sint_word_of_int_in_range [OF this] False show ?thesis
    by (simp add: paddle_sum_wrap)
qed

lemma offset_terms_nonneg:
  "j < length seq \<Longrightarrow> 0 \<le> Max (sint ` set seq) - sint (seq ! j)"
  by simp

lemma offset_sum_bounds:
  assumes "i < length seq"
  shows "0 \<le> offset_sum seq i" and "offset_sum seq i \<le> offset_sum seq (length seq - 1)"
proof -
  show "0 \<le> offset_sum seq i"
    unfolding offset_sum_def using assms by (intro sum_nonneg offset_terms_nonneg) simp
  have "(\<Sum>j\<in>{..i}. Max (sint ` set seq) - sint (seq ! j))
          \<le> (\<Sum>j\<in>{..length seq - 1}. Max (sint ` set seq) - sint (seq ! j))"
    using assms by (intro sum_mono2) (auto intro: offset_terms_nonneg)
  then show "offset_sum seq i \<le> offset_sum seq (length seq - 1)"
    by (simp add: offset_sum_def)
qed

lemma example_seq_offsets:
  "offset_sum example_seq 0 = 0" "offset_sum example_seq 1 = 2" "offset_sum example_seq 2 = 3"
proof -
  have s: "{..1::nat} = {0, 1}" "{..2::nat} = {0, 1, 2}" by auto
  show "offset_sum example_seq 0 = 0" "offset_sum example_seq 1 = 2"
    "offset_sum example_seq 2 = 3"
    by (simp_all add: offset_sum_def example_seq_def s)
qed

lemma wrap_seq_offsets: "offset_sum wrap_seq 2 = 4294967294"
proof -
  have "{..2::nat} = {0, 1, 2}" by auto
  then show ?thesis by (simp add: offset_sum_def wrap_seq_def)
qed

section \<open>Facts about get_masks\<close>

lemma broadcast_rev_same: "broadcast_rev xs xs = Some xs"
  by (induction xs) simp_all

lemma broadcast_shape_same: "broadcast_shape a a = Some a"
  by (simp add: broadcast_shape_def broadcast_rev_same)

lemma causal_part_value:
  "\<exists>c. causal_part b s p = Inr c \<and> shape c = [b, 1, s, s + p]
       \<and> (\<forall>i j q k. entry c [i, j, q, k] \<longleftrightarrow> k \<le> q + p)"
proof (cases "p > 0")
  case False
  then show ?thesis
    by (simp add: causal_part_def paddle_tril_def paddle_ones_def)
next
  case True
  then show ?thesis
    by (auto simp add: causal_part_def paddle_tril_def paddle_ones_def paddle_concat_last_def)
qed

lemma broadcast_index_in_range:
  "i < b \<Longrightarrow> q < s \<Longrightarrow> k < l \<Longrightarrow> broadcast_index [b, 1, s, l] [i, 0, q, k] = [i, 0, q, k]"
  by (auto simp add: broadcast_index_def)

lemma get_masks_none:
  "\<exists>t. get_masks b s p (None :: 'a::zero mask option) = Inr t \<and> shape t = [b, 1, s, s + p]
       \<and> (\<forall>i < b. \<forall>q < s. \<forall>k < s + p. entry t [i, 0, q, k] \<longleftrightarrow> k \<le> q + p)"
proof -
  obtain c where c: "causal_part b s p = Inr c" "shape c = [b, 1, s, s + p]"
    "\<And>i j q k. entry c [i, j, q, k] \<longleftrightarrow> k \<le> q + p"
    using causal_part_value [of b s p] by blast
  have run: "get_masks b s p (None :: 'a mask option) =
               paddle_and c (paddle_ones [b, 1, s, s + p])"
    using c(1) by (simp add: get_masks_def causal_part_def bind_err_def paddle_ones_def)
  show ?thesis
    unfolding run
    by (simp add: paddle_and_def c(2) c(3) paddle_ones_def broadcast_shape_same
        broadcast_index_in_range del: One_nat_def)
qed

text \<open>Casting to Boolean after \<open>unsqueeze\<close> and \<open>expand\<close> is casting before them.\<close>

lemma mask_2d_branch:
  "bind_err (mask_expand (mask_unsqueeze 2 (mask_unsqueeze 1 m)) tgt)
     (\<lambda>m. Inr (BoolMask (astype_bool m)))
   = bind_err (paddle_expand (unsqueeze 2 (unsqueeze 1 (astype_bool m))) tgt)
       (\<lambda>r. Inr (BoolMask r))"
  by (cases m) (simp_all add: bind_err_def paddle_expand_def unsqueeze_def)

lemma get_masks_2d:
  assumes m: "mask_shape (m :: 'a::zero mask) = [B, L]"
    and B: "B = b \<or> B = 1" and L: "L = s + p \<or> L = 1"
  shows "\<exists>t. get_masks b s p (Some m) = Inr t \<and> shape t = [b, 1, s, s + p]
       \<and> (\<forall>i < b. \<forall>q < s. \<forall>k < s + p. entry t [i, 0, q, k] \<longleftrightarrow>
             k \<le> q + p \<and> entry (astype_bool m) [if B = 1 then 0 else i, if L = 1 then 0 else k])"
proof -
  obtain c where c: "causal_part b s p = Inr c" "shape c = [b, 1, s, s + p]"
    "\<And>i j q k. entry c [i, j, q, k] \<longleftrightarrow> k \<le> q + p"
    using causal_part_value [of b s p] by blast
  have sh: "shape (astype_bool m) = [B, L]"
    using m by (cases m) simp_all
  let ?u = "unsqueeze 2 (unsqueeze 1 (astype_bool m))"
  have ush: "shape ?u = [B, 1, 1, L]"
    by (simp add: unsqueeze_def sh)
  have uent: "\<And>i j q k. entry ?u [i, j, q, k] = entry (astype_bool m) [i, k]"
    by (simp add: unsqueeze_def)
  have ex: "expandable [B, 1, 1, L] [b, 1, s, s + p]"
    using B L by (auto simp add: expandable_def)
  let ?e = "\<lparr>shape = [b, 1, s, s + p],
             entry = (\<lambda>idx. entry ?u (broadcast_index [B, 1, 1, L] idx))\<rparr>"
  have run: "get_masks b s p (Some m) = paddle_and c ?e"
    using c(1) m ex
    unfolding get_masks_def mask_2d_branch
    by (simp add: causal_part_def bind_err_def paddle_expand_def ush del: One_nat_def)
  have bi: "\<And>i q k. broadcast_index [B, 1, 1, L] [i, 0, q, k]
                 = [if B = 1 then 0 else i, 0, 0, if L = 1 then 0 else k]"
    by (simp add: broadcast_index_def del: One_nat_def)
  show ?thesis
    unfolding run
    by (simp add: paddle_and_def c(2) c(3) broadcast_shape_same broadcast_index_in_range
        bi uent del: One_nat_def)
qed

lemma get_masks_2d_mismatch:
  assumes "mask_shape (m :: 'a::zero mask) = [B, L]"
    and "\<not> ((B = b \<or> B = 1) \<and> (L = s + p \<or> L = 1))"
  shows "\<exists>e. get_masks b s p (Some m) = Inl e"
proof -
  obtain c where c: "causal_part b s p = Inr c"
    using causal_part_value [of b s p] by blast
  have sh: "shape (astype_bool m) = [B, L]"
    using assms(1) by (cases m) simp_all
  have "\<not> expandable (shape (unsqueeze 2 (unsqueeze 1 (astype_bool m)))) [b, 1, s, s + p]"
    using assms(2) by (auto simp add: expandable_def unsqueeze_def sh)
  then show ?thesis
    using c assms(1)
    unfolding get_masks_def mask_2d_branch
    by (simp add: causal_part_def bind_err_def paddle_expand_def)
qed

section \<open>Facts about runs\<close>

lemma then_run_Inr:
  "then_run m f = (tr, Inr y) \<longleftrightarrow>
     (\<exists>tr1 x tr2. m = (tr1, Inr x) \<and> f x = (tr2, Inr y) \<and> tr = tr1 @ tr2)"
  by (auto simp add: then_run_def split: prod.splits sum.splits)

lemma lift_err_Inr: "lift_err r = (tr, Inr y) \<longleftrightarrow> tr = [] \<and> r = Inr y"
  by (auto simp add: lift_err_def)

lemma ret_Inr: "ret x = (tr, Inr y) \<longleftrightarrow> tr = [] \<and> x = y"
  by (auto simp add: ret_def)

lemma call_ext_Inr: "call_ext c x = (tr, Inr y) \<longleftrightarrow> tr = [c] \<and> x = y"
  by (auto simp add: call_ext_def)

lemma then_run_calls:
  "c \<in> set (fst (then_run m f)) \<longleftrightarrow>
     c \<in> set (fst m) \<or> (\<exists>x. snd m = Inr x \<and> c \<in> set (fst (f x)))"
  by (auto simp add: then_run_def split: prod.splits sum.splits)

lemma lift_err_parts: "fst (lift_err r) = []" "snd (lift_err r) = r"
  by (simp_all add: lift_err_def)

lemma ret_parts: "fst (ret x) = []" "snd (ret x) = Inr x"
  by (simp_all add: ret_def)

lemma call_ext_parts: "fst (call_ext c x) = [c]" "snd (call_ext c x) = Inr x"
  by (simp_all add: call_ext_def)

lemma then_run_lift_err_Inl [simp]: "then_run (lift_err (Inl e)) f = ([], Inl e)"
  by (simp add: then_run_def lift_err_def)

lemma then_run_lift_err_Inr [simp]: "then_run (lift_err (Inr x)) f = f x"
  by (simp add: then_run_def lift_err_def split: prod.splits)

lemma run_sat_then_run:
  "run_sat C Q E (then_run m f) \<longleftrightarrow> run_sat C (\<lambda>x. run_sat C Q E (f x)) E m"
  by (cases m; cases "snd m")
     (auto simp add: run_sat_def then_run_def split: prod.splits sum.splits)

lemma run_sat_ret: "run_sat C Q E (ret x) \<longleftrightarrow> Q x"
  by (simp add: run_sat_def ret_def)

lemma run_sat_lift_err:
  "run_sat C Q E (lift_err r) \<longleftrightarrow> (case r of Inl e \<Rightarrow> E e | Inr x \<Rightarrow> Q x)"
  by (simp add: run_sat_def lift_err_def)

lemma run_sat_call_ext: "run_sat C Q E (call_ext c x) \<longleftrightarrow> C c \<and> Q x"
  by (simp add: run_sat_def call_ext_def)

lemmas run_sat_simps = run_sat_then_run run_sat_ret run_sat_lift_err run_sat_call_ext

lemma if_err_Inr: "((if c then Inl e else Inr v) = Inr y) \<longleftrightarrow> (\<not> c \<and> v = y)"
  by simp

section \<open>Facts about QWenInferenceModel.forward\<close>

lemma past_length_of_Inr: "past_length_of cfg pkv = Inr n \<Longrightarrow> pkv \<noteq> None"
  by (auto simp add: past_length_of_def len_of_int_def bind_err_def split: option.splits)

lemma make_output_form:
  "make_output rd h (empty_tuple_if uc)
     (if ohs then tuple_append (empty_tuple_if ohs) (TensorV h) else empty_tuple_if ohs)
     (empty_tuple_if oa) =
   (if \<not> rd
    then TupleOut
           (TensorV h # (if uc then [TupleV []] else [])
            @ (if ohs then [TupleV [TensorV h]] else [])
            @ (if oa then [TupleV []] else []))
    else ModelOut
           \<lparr>bo_last_hidden_state = h,
            bo_past_key_values = (if uc then Some (TupleV []) else None),
            bo_hidden_states = (if ohs then Some (TupleV [TensorV h]) else None),
            bo_attentions = (if oa then Some (TupleV []) else None)\<rparr>)"
  by (simp add: make_output_def empty_tuple_if_def tuple_append_def List.map_filter_simps)

text \<open>A call that returns is a decoder-phase call, and this is all it did.\<close>

lemma forward_completed:
  assumes "forward ext cfg hdim args = (tr, Inr out)"
  shows "\<exists>pre blk h0 h inshape p.
      fa_cache args \<noteq> None
    \<and> tr = pre @ [RotaryCall (fa_input_ids args) (fa_position_ids args) hdim 0 True,
                  BlockCall blk, RmsNormCall h0]
    \<and> (pre = [] \<or> (\<exists>ids. pre = [EmbeddingCall ids]))
    \<and> ba_pre_caches_length blk = 0
    \<and> dtype_mask ext inshape p (fa_attention_mask args) = Inr (ba_attn_mask blk)
    \<and> out =
        make_output (resolve (fa_return_dict args) (cfg_use_return_dict cfg)) h
          (empty_tuple_if (resolve (fa_use_cache args) (cfg_use_cache cfg)))
          (if resolve (fa_output_hidden_states args) (cfg_output_hidden_states cfg)
           then tuple_append
                  (empty_tuple_if
                     (resolve (fa_output_hidden_states args) (cfg_output_hidden_states cfg)))
                  (TensorV h)
           else empty_tuple_if
                  (resolve (fa_output_hidden_states args) (cfg_output_hidden_states cfg)))
          (empty_tuple_if (resolve (fa_output_attentions args) (cfg_output_attentions cfg)))"
proof -
  have dec: "fa_cache args \<noteq> None"
    using assms unfolding forward_def Let_def
    by (auto simp add: then_run_Inr lift_err_Inr dest: past_length_of_Inr)
  have run: "\<exists>inshape emb p am h.
      input_shape_of ext (fa_input_ids args) (fa_inputs_embeds args) = Inr (inshape, emb)
    \<and> dtype_mask ext inshape p (fa_attention_mask args) = Inr am
    \<and> (\<exists>pre. (pre = [] \<or> (\<exists>ids. pre = [EmbeddingCall ids]))
        \<and> (\<exists>blk. ba_pre_caches_length blk = 0 \<and> ba_attn_mask blk = am
        \<and> tr = pre @ [RotaryCall (fa_input_ids args) (fa_position_ids args) hdim 0 True,
                  BlockCall blk, RmsNormCall (transformer_block ext blk)]))
    \<and> out =
        make_output (resolve (fa_return_dict args) (cfg_use_return_dict cfg)) h
          (empty_tuple_if (resolve (fa_use_cache args) (cfg_use_cache cfg)))
          (if resolve (fa_output_hidden_states args) (cfg_output_hidden_states cfg)
           then tuple_append
                  (empty_tuple_if
                     (resolve (fa_output_hidden_states args) (cfg_output_hidden_states cfg)))
                  (TensorV h)
           else empty_tuple_if
                  (resolve (fa_output_hidden_states args) (cfg_output_hidden_states cfg)))
          (empty_tuple_if (resolve (fa_output_attentions args) (cfg_output_attentions cfg)))"
    using assms dec unfolding forward_def Let_def
    apply (simp add: then_run_Inr lift_err_Inr ret_Inr call_ext_Inr if_err_Inr
        split: option.splits prod.splits)
    apply (elim exE conjE)
    apply (auto simp add: ret_Inr call_ext_Inr lift_err_Inr split: option.splits)
     apply blast+
    done
  then show ?thesis using dec by metis
qed

text \<open>An encoder-phase call raises before any external call.\<close>

lemma forward_encoder_never_completes:
  assumes "fa_cache args = None"
  shows "\<exists>e. forward ext cfg hdim args = ([], Inl e)"
proof (cases "check_inputs (fa_input_ids args) (fa_inputs_embeds args)")
  case (Inl e)
  then show ?thesis by (simp add: forward_def)
next
  case chk: (Inr u)
  show ?thesis
  proof (cases "input_shape_of ext (fa_input_ids args) (fa_inputs_embeds args)")
    case (Inl e)
    with chk show ?thesis by (simp add: forward_def)
  next
    case (Inr r)
    with chk assms show ?thesis
      by (cases r) (simp add: forward_def past_length_of_def len_of_int_def bind_err_def)
  qed
qed

lemma forward_encoder_len_error:
  assumes "fa_cache args = None" and "fa_input_ids args \<noteq> None"
    and "fa_inputs_embeds args = None"
  shows "forward ext cfg hdim args = ([], Inl (TypeError ''object of type int has no len()''))"
  using assms
  by (auto simp add: forward_def check_inputs_def input_shape_of_def past_length_of_def
      len_of_int_def bind_err_def)

lemma forward_calls_decoder:
  assumes "c \<in> set (fst (forward ext cfg hdim args))"
  shows "fa_cache args \<noteq> None"
proof
  assume "fa_cache args = None"
  then obtain e where "forward ext cfg hdim args = ([], Inl e)"
    using forward_encoder_never_completes by blast
  with assms show False by simp
qed

lemma forward_rotary_calls:
  assumes "RotaryCall i p h off b \<in> set (fst (forward ext cfg hdim args))"
  shows "off = 0 \<and> fa_cache args \<noteq> None"
proof -
  have dec: "fa_cache args \<noteq> None"
    using assms by (rule forward_calls_decoder)
  show ?thesis
    using assms dec unfolding forward_def Let_def
    by (auto simp add: then_run_calls lift_err_parts ret_parts call_ext_parts
        split: option.splits prod.splits)
qed

lemma forward_block_sat:
  "run_sat (block_ok ext args) (\<lambda>_. True) (\<lambda>_. True) (forward ext cfg hdim args)"
proof (cases "fa_cache args")
  case None
  then obtain e where "forward ext cfg hdim args = ([], Inl e)"
    using forward_encoder_never_completes by blast
  then show ?thesis by (simp add: run_sat_def)
next
  case (Some pkv)
  then show ?thesis
    unfolding forward_def Let_def
    apply (simp add: run_sat_simps block_ok_def split: sum.splits option.splits prod.splits)
    apply blast
    done
qed

lemma forward_block_calls:
  assumes "BlockCall blk \<in> set (fst (forward ext cfg hdim args))"
  shows "ba_pre_caches_length blk = 0
       \<and> (\<exists>inshape p. dtype_mask ext inshape p (fa_attention_mask args)
                           = Inr (ba_attn_mask blk))"
proof -
  have "list_all (block_ok ext args) (fst (forward ext cfg hdim args))"
    using forward_block_sat [of ext args cfg hdim] by (simp add: run_sat_def)
  with assms have "block_ok ext args (BlockCall blk)"
    by (simp add: list_all_iff)
  then show ?thesis by (simp add: block_ok_def)
qed


section \<open>The exceptions after the input-presence check\<close>

lemma check_error_simps [simp]:
  "\<not> check_error (TypeError s)" "\<not> check_error (IndexError s)"
  "\<not> check_error (KeyError s)" "\<not> check_error (AttributeError s)"
  "\<not> check_error (ZeroDivisionError s)"
  "check_error (ValueError s) \<longleftrightarrow> s = both_msg \<or> s = either_msg"
  by (simp_all add: check_error_def)

lemma input_shape_of_not_check:
  "input_shape_of ext ii ie = Inl e \<Longrightarrow> \<not> check_error e"
  by (auto simp add: input_shape_of_def both_msg_def either_msg_def
      split: option.splits list.splits)

lemma past_length_of_not_check: "past_length_of cfg pkv = Inl e \<Longrightarrow> \<not> check_error e"
  by (auto simp add: past_length_of_def len_of_int_def py_index_def bind_err_def
      split: option.splits sum.splits if_splits)

lemma remove_padding_not_check: "remove_padding gpo ids seq = Inl e \<Longrightarrow> \<not> check_error e"
  by (cases seq)
     (auto simp add: remove_padding_def bind_err_def Let_def both_msg_def either_msg_def
      split: prod.splits)

lemma and_mask_not_check: "and_mask c m = Inl e \<Longrightarrow> \<not> check_error e"
  by (cases m)
     (auto simp add: paddle_and_def both_msg_def either_msg_def split: option.splits)

lemma get_masks_not_check: "get_masks b s p am = Inl e \<Longrightarrow> \<not> check_error e"
  unfolding get_masks_def mask_2d_branch
  by (auto simp add: bind_err_def Let_def paddle_concat_last_def
      paddle_expand_def both_msg_def either_msg_def dest: and_mask_not_check
      split: sum.splits if_splits)

lemma dtype_mask_not_check: "dtype_mask ext ish p am = Inl e \<Longrightarrow> \<not> check_error e"
  by (auto simp add: dtype_mask_def bind_err_def py_index_def Let_def
      dest: get_masks_not_check split: sum.splits if_splits)

lemma rms_norm_forward_not_check: "rms_norm_forward ext x = Inl e \<Longrightarrow> \<not> check_error e"
  by (auto simp add: rms_norm_forward_def split: norm_result.splits list.splits)

lemma forward_no_check_error:
  assumes "check_inputs (fa_input_ids args) (fa_inputs_embeds args) = Inr ()"
  shows "run_sat (\<lambda>c. True) (\<lambda>out. True) (\<lambda>e. \<not> check_error e) (forward ext cfg hdim args)"
  using assms
  unfolding forward_def Let_def
  by (auto simp add: run_sat_simps input_shape_of_not_check past_length_of_not_check
      remove_padding_not_check dtype_mask_not_check rms_norm_forward_not_check
      split: sum.splits option.splits prod.splits)

section \<open>The example runs\<close>

lemmas forward_eval_defs =
  forward_def decoder_args_def encoder_args_def example_ext_def example_cfg_def example_ids_def
  example_kv_def check_inputs_def input_shape_of_def past_length_of_def py_index_def
  bind_err_def dtype_mask_def get_masks_def paddle_tril_def paddle_ones_def
  paddle_concat_last_def paddle_and_def broadcast_shape_def broadcast_index_def
  paddle_where_def paddle_zeros_def paddle_full_like_def resolve_def empty_tuple_if_def
  tuple_append_def make_output_def rms_norm_forward_def then_run_def lift_err_def ret_def
  call_ext_def List.map_filter_simps len_of_int_def

lemma decoder_example_returns:
  "\<exists>tr out. forward example_ext example_cfg 16 decoder_args = (tr, Inr out)"
  by (simp add: forward_eval_defs)

lemma encoder_example_cache: "fa_cache encoder_args = None"
  by (simp add: encoder_args_def)

lemma encoder_example_pre_caches: "fa_pre_caches encoder_args \<noteq> None"
  by (simp add: encoder_args_def)

lemma decoder_example_rotary:
  "RotaryCall (Some example_ids) None 16 0 True
     \<in> set (fst (forward example_ext example_cfg 16 decoder_args))"
  by (simp add: forward_eval_defs)


section \<open>Facts about QWenForCausalLMInferenceModel.forward\<close>

lemma qwen_call_args_flags:
  "resolve (fa_return_dict (qwen_call_args cfg args)) d
     = resolve (fa_return_dict args) (cfg_use_return_dict cfg)"
  "resolve (fa_output_hidden_states (qwen_call_args cfg args)) d'
     = resolve (fa_output_hidden_states args) (cfg_output_hidden_states cfg)"
  "resolve (fa_output_attentions (qwen_call_args cfg args)) d''
     = resolve (fa_output_attentions args) (cfg_output_attentions cfg)"
  "fa_use_cache (qwen_call_args cfg args) = fa_use_cache args"
  by (simp_all add: qwen_call_args_def resolve_def Let_def)

lemma then_run_value:
  "m = (tr, Inr x) \<Longrightarrow> then_run m f = (tr @ fst (f x), snd (f x))"
  by (simp add: then_run_def split: prod.splits)

lemma then_run_error:
  "m = (tr, Inl e) \<Longrightarrow> then_run m f = (tr, Inl e)"
  by (simp add: then_run_def)

lemma decoder_example_inner_returns:
  "\<exists>tr out. forward example_ext example_cfg 16 (qwen_call_args example_cfg decoder_args)
              = (tr, Inr out)"
  by (simp add: forward_eval_defs qwen_call_args_def)

text \<open>An exception of the wrapped model is the exception of the call.\<close>

lemma causal_lm_forward_raises:
  assumes "forward ext cfg hdim (qwen_call_args cfg args) = (tr, Inl e)"
  shows "causal_lm_forward lm ext cfg hdim args labels = (tr, Inl e)"
  unfolding causal_lm_forward_def Let_def then_run_error [OF assms] ..

section \<open>Facts about set_state_dict\<close>

lemma example_keys: "example_state_dict ''qwen.wte.weight'' = Some [1]"
  "example_state_dict ''qwen.ln_f.weight'' = Some [2]"
  by (simp_all add: example_state_dict_def)

lemma set_slot_lenient:
  "set_value ext = lenient_set_value \<Longrightarrow> idx < length xs \<Longrightarrow>
     set_slot ext xs idx v = Inr (xs[idx := v])"
  by (simp add: set_slot_def py_index_def bind_err_def lenient_set_value_def)

lemma slots_len_le:
  "idx < slots_len self \<Longrightarrow>
     idx < length (ln_scales self) \<and> idx < length (qkv_weights self)
   \<and> idx < length (qkv_biases self) \<and> idx < length (linear_weights self)
   \<and> idx < length (ffn_ln_scales self) \<and> idx < length (ffn1_weights self)
   \<and> idx < length (ffn2_weights self)"
  by (simp add: slots_len_def)

lemma lookup_named:
  "state_dict (layer_key idx name) \<noteq> None \<Longrightarrow>
     lookup state_dict (layer_key idx name) = Inr (named state_dict idx name)"
  by (auto simp add: lookup_def named_def)

lemma set_layer_lenient:
  assumes sv: "set_value ext = lenient_set_value"
    and keys: "layer_keys_present state_dict idx"
    and len: "idx < slots_len self"
  shows "set_layer ext state_dict idx self = Inr (loaded_layer ext state_dict idx self)"
proof -
  note l = slots_len_le [OF len]
  from keys have k:
    "lookup state_dict (layer_key idx ''ln_1.weight'') = Inr (named state_dict idx ''ln_1.weight'')"
    "lookup state_dict (layer_key idx ''attn.c_attn.weight'')
       = Inr (named state_dict idx ''attn.c_attn.weight'')"
    "lookup state_dict (layer_key idx ''attn.c_attn.bias'')
       = Inr (named state_dict idx ''attn.c_attn.bias'')"
    "lookup state_dict (layer_key idx ''attn.c_proj.weight'')
       = Inr (named state_dict idx ''attn.c_proj.weight'')"
    "lookup state_dict (layer_key idx ''ln_2.weight'') = Inr (named state_dict idx ''ln_2.weight'')"
    "lookup state_dict (layer_key idx ''mlp.w1.weight'') = Inr (named state_dict idx ''mlp.w1.weight'')"
    "lookup state_dict (layer_key idx ''mlp.w2.weight'') = Inr (named state_dict idx ''mlp.w2.weight'')"
    "lookup state_dict (layer_key idx ''mlp.c_proj.weight'')
       = Inr (named state_dict idx ''mlp.c_proj.weight'')"
    by (simp_all add: layer_keys_present_def layer_names_def lookup_named)
  show ?thesis
    using l
    by (simp add: set_layer_def k bind_err_def py_index_def set_slot_lenient [OF sv]
        loaded_layer_def Let_def)
qed

lemma slots_len_loaded_layer [simp]:
  "slots_len (loaded_layer ext state_dict idx self) = slots_len self"
  by (simp add: slots_len_def loaded_layer_def)

lemma set_layers_lenient:
  assumes sv: "set_value ext = lenient_set_value"
  shows "(\<forall>i\<in>set idxs. layer_keys_present state_dict i \<and> i < slots_len self) \<Longrightarrow>
         set_layers ext state_dict idxs self = Inr (fold (loaded_layer ext state_dict) idxs self)"
proof (induction idxs arbitrary: self)
  case Nil
  then show ?case by simp
next
  case (Cons i idxs)
  then have step: "set_layer ext state_dict i self = Inr (loaded_layer ext state_dict i self)"
    by (intro set_layer_lenient [OF sv]) simp_all
  from Cons.prems have
    "\<forall>j\<in>set idxs. layer_keys_present state_dict j
        \<and> j < slots_len (loaded_layer ext state_dict i self)"
    by simp
  from Cons.IH [OF this] step show ?case
    by (simp add: bind_err_def)
qed


lemma loaded_layer_fixed [simp]:
  "hidden_size (loaded_layer ext sd i self) = hidden_size self"
  "num_attention_heads (loaded_layer ext sd i self) = num_attention_heads self"
  "num_layers (loaded_layer ext sd i self) = num_layers self"
  "wte_weight (loaded_layer ext sd i self) = wte_weight self"
  "ln_f_weight (loaded_layer ext sd i self) = ln_f_weight self"
  by (simp_all add: loaded_layer_def)

lemma fold_loaded_layer_fixed:
  "wte_weight (fold (loaded_layer ext sd) idxs self) = wte_weight self
   \<and> ln_f_weight (fold (loaded_layer ext sd) idxs self) = ln_f_weight self
   \<and> slots_len (fold (loaded_layer ext sd) idxs self) = slots_len self"
  by (induction idxs arbitrary: self) simp_all

lemma loaded_layer_other:
  assumes "j \<noteq> i"
  shows "ln_scales (loaded_layer ext sd i self) ! j = ln_scales self ! j"
    "qkv_weights (loaded_layer ext sd i self) ! j = qkv_weights self ! j"
    "qkv_biases (loaded_layer ext sd i self) ! j = qkv_biases self ! j"
    "linear_weights (loaded_layer ext sd i self) ! j = linear_weights self ! j"
    "ffn_ln_scales (loaded_layer ext sd i self) ! j = ffn_ln_scales self ! j"
    "ffn1_weights (loaded_layer ext sd i self) ! j = ffn1_weights self ! j"
    "ffn2_weights (loaded_layer ext sd i self) ! j = ffn2_weights self ! j"
  using assms by (simp_all add: loaded_layer_def)

lemma loaded_layer_same:
  assumes "i < slots_len self"
  shows "ln_scales (loaded_layer ext sd i self) ! i
           = to_tensor ext (named sd i ''ln_1.weight'') (Some (dtype_of ext (ln_scales self ! i)))"
    "qkv_weights (loaded_layer ext sd i self) ! i
           = to_tensor ext (named sd i ''attn.c_attn.weight'') None"
    "qkv_biases (loaded_layer ext sd i self) ! i
           = to_tensor ext (named sd i ''attn.c_attn.bias'') None"
    "linear_weights (loaded_layer ext sd i self) ! i
           = to_tensor ext (named sd i ''attn.c_proj.weight'') None"
    "ffn_ln_scales (loaded_layer ext sd i self) ! i
           = to_tensor ext (named sd i ''ln_2.weight'')
               (Some (dtype_of ext (ffn_ln_scales self ! i)))"
    "ffn1_weights (loaded_layer ext sd i self) ! i
           = to_tensor ext
               (np_concatenate ext (named sd i ''mlp.w1.weight'') (named sd i ''mlp.w2.weight''))
               None"
    "ffn2_weights (loaded_layer ext sd i self) ! i
           = to_tensor ext (named sd i ''mlp.c_proj.weight'') None"
  using slots_len_le [OF assms] by (simp_all add: loaded_layer_def)

lemma fold_loaded_layer_other:
  "j \<notin> set idxs \<Longrightarrow>
     ln_scales (fold (loaded_layer ext sd) idxs self) ! j = ln_scales self ! j
   \<and> qkv_weights (fold (loaded_layer ext sd) idxs self) ! j = qkv_weights self ! j
   \<and> qkv_biases (fold (loaded_layer ext sd) idxs self) ! j = qkv_biases self ! j
   \<and> linear_weights (fold (loaded_layer ext sd) idxs self) ! j = linear_weights self ! j
   \<and> ffn_ln_scales (fold (loaded_layer ext sd) idxs self) ! j = ffn_ln_scales self ! j
   \<and> ffn1_weights (fold (loaded_layer ext sd) idxs self) ! j = ffn1_weights self ! j
   \<and> ffn2_weights (fold (loaded_layer ext sd) idxs self) ! j = ffn2_weights self ! j"
  by (induction idxs arbitrary: self) (simp_all add: loaded_layer_other)

lemma fold_loaded_layer_same:
  "distinct idxs \<Longrightarrow> j \<in> set idxs \<Longrightarrow> j < slots_len self \<Longrightarrow>
     loaded_slots_at ext sd self (fold (loaded_layer ext sd) idxs self) j"
proof (induction idxs arbitrary: self)
  case Nil
  then show ?case by simp
next
  case (Cons i idxs)
  show ?case
  proof (cases "j = i")
    case True
    with Cons.prems have "j \<notin> set idxs" by simp
    from fold_loaded_layer_other [OF this, of ext sd "loaded_layer ext sd i self"]
      loaded_layer_same [of i self ext sd] True Cons.prems(3)
    show ?thesis by (simp add: loaded_slots_at_def)
  next
    case False
    with Cons.prems have j: "j \<in> set idxs" and d: "distinct idxs" by simp_all
    from Cons.prems(3) have "j < slots_len (loaded_layer ext sd i self)" by simp
    from Cons.IH [OF d j this] loaded_layer_other [OF False, of ext sd self]
    show ?thesis by (simp add: loaded_slots_at_def)
  qed
qed


text \<open>
  Were \<open>set_value\<close> to accept the keyword and store the value all the same, the method
  would fill every slot as the claim says.
\<close>

lemma set_state_dict_lenient:
  assumes sv: "set_value ext = lenient_set_value"
    and nh: "num_attention_heads self \<noteq> 0"
    and top: "sd ''qwen.wte.weight'' = Some w" "sd ''qwen.ln_f.weight'' = Some l"
    and keys: "\<forall>i<nat (num_layers self). layer_keys_present sd i"
    and len: "nat (num_layers self) \<le> slots_len self"
  shows "\<exists>self'. set_state_dict ext sd self = Inr self'
     \<and> wte_weight self' = to_tensor ext w None
     \<and> ln_f_weight self' = to_tensor ext l None
     \<and> (\<forall>idx<nat (num_layers self). loaded_slots_at ext sd self self' idx)"
proof -
  define self1 where
    "self1 = self\<lparr>wte_weight := to_tensor ext w None, ln_f_weight := to_tensor ext l None\<rparr>"
  define n where "n = nat (num_layers self)"
  have s1: "slots_len self1 = slots_len self" "num_layers self1 = num_layers self"
    "ln_scales self1 = ln_scales self" "ffn_ln_scales self1 = ffn_ln_scales self"
    "wte_weight self1 = to_tensor ext w None" "ln_f_weight self1 = to_tensor ext l None"
    by (simp_all add: self1_def slots_len_def)
  have pre: "\<forall>i\<in>set [0..<n]. layer_keys_present sd i \<and> i < slots_len self1"
    using keys len by (simp add: s1 n_def)
  note loop = set_layers_lenient [OF sv pre]
  let ?new = "fold (loaded_layer ext sd) [0..<n] self1"
  have run: "set_state_dict ext sd self = Inr ?new"
    using nh top loop
    by (simp add: set_state_dict_def bind_err_def lookup_def sv lenient_set_value_def
        Let_def self1_def n_def)
  have fixed: "wte_weight ?new = to_tensor ext w None" "ln_f_weight ?new = to_tensor ext l None"
    using fold_loaded_layer_fixed [of ext sd "[0..<n]" self1] by (simp_all add: s1)
  have slots: "\<forall>idx<n. loaded_slots_at ext sd self ?new idx"
  proof (intro allI impI)
    fix idx assume i: "idx < n"
    then have "idx \<in> set [0..<n]" and "idx < slots_len self1"
      using len by (simp_all add: s1 n_def)
    from fold_loaded_layer_same [OF distinct_upt this, of ext sd]
    show "loaded_slots_at ext sd self ?new idx"
      by (simp add: loaded_slots_at_def s1)
  qed
  from run fixed slots show ?thesis
    unfolding n_def by blast
qed

lemma example_layer_keys: "layer_keys_present example_state_dict 0"
  by (simp add: layer_keys_present_def layer_names_def example_state_dict_def layer_key_def
      str_of_nat.simps digit_char_def)

lemma set_state_dict_lenient_example:
  "\<exists>self'. set_state_dict (example_paddle\<lparr>set_value := lenient_set_value\<rparr>) example_state_dict
              example_model = Inr self'
     \<and> wte_weight self' = [1] \<and> ln_f_weight self' = [2]
     \<and> ln_scales self' = [[3]] \<and> qkv_weights self' = [[4]] \<and> qkv_biases self' = [[5]]
     \<and> linear_weights self' = [[6]] \<and> ffn_ln_scales self' = [[7]]
     \<and> ffn1_weights self' = [[8, 9]] \<and> ffn2_weights self' = [[10]]"
  by (simp add: set_state_dict_def bind_err_def lookup_def lenient_set_value_def Let_def
      example_paddle_def example_model_def example_state_dict_def set_layer_def set_slot_def
      py_index_def layer_key_def str_of_nat.simps digit_char_def upt_rec)

section \<open>Claim C1: the encoder phase\<close>

text \<open>
  C1. The claim: beyond the input-presence check the wrapper raises nothing, and the
  encoder-phase path (no \<open>cache\<close> keyword) completes. The code: every encoder-phase call
  raises before it makes any external call, and one that passes the check with
  \<open>input_ids\<close> raises \<open>TypeError\<close> at \<open>len(self.config.num_hidden_layers)\<close>, the length of
  an integer.
\<close>

theorem forward_encoder_phase_raises:
  assumes "fa_cache args = None"
  shows "(\<exists>e. forward ext cfg hdim args = ([], Inl e))
       \<and> (fa_input_ids args \<noteq> None \<and> fa_inputs_embeds args = None \<longrightarrow>
            forward ext cfg hdim args
              = ([], Inl (TypeError ''object of type int has no len()'')))"
  using forward_encoder_never_completes [OF assms] forward_encoder_len_error [OF assms]
  by blast

theorem forward_encoder_phase_raises_witness:
  "fa_cache encoder_args = None
   \<and> fa_input_ids encoder_args \<noteq> None \<and> fa_inputs_embeds encoder_args = None
   \<and> forward example_ext example_cfg 16 encoder_args
       = ([], Inl (TypeError ''object of type int has no len()''))"
proof -
  have c: "fa_cache encoder_args = None"
    by (simp add: encoder_args_def)
  have i: "fa_input_ids encoder_args \<noteq> None \<and> fa_inputs_embeds encoder_args = None"
    by (simp add: encoder_args_def decoder_args_def)
  from forward_encoder_phase_raises [OF c, of example_ext example_cfg 16, THEN conjunct2, THEN mp, OF i]
  show ?thesis using c i by simp
qed

section \<open>Claim C2: the input-presence check\<close>

text \<open>
  C2. \<open>forward\<close> checks the presence of its inputs first: with \<open>input_ids\<close> and
  \<open>inputs_embeds\<close> both given it raises the first \<open>ValueError\<close> of the check, with both
  absent the second, in either case before any external call; with exactly one of them
  given the check raises nothing and no later exception of the call is one of the two.
  So the call raises one of the two exceptions of the check exactly when both or neither
  are given. Other statements of the method raise \<open>ValueError\<close> too: with \<open>inputs_embeds\<close>
  of rank 2 alone, unpacking its shape into three names does.
\<close>

theorem forward_input_check:
  "(fa_input_ids args \<noteq> None \<and> fa_inputs_embeds args \<noteq> None \<longrightarrow>
      forward ext cfg hdim args = ([], Inl (ValueError both_msg)))
   \<and> (fa_input_ids args = None \<and> fa_inputs_embeds args = None \<longrightarrow>
      forward ext cfg hdim args = ([], Inl (ValueError either_msg)))
   \<and> ((fa_input_ids args = None) \<noteq> (fa_inputs_embeds args = None) \<longrightarrow>
      check_inputs (fa_input_ids args) (fa_inputs_embeds args) = Inr ()
      \<and> (\<forall>e. snd (forward ext cfg hdim args) = Inl e \<longrightarrow> \<not> check_error e))
   \<and> ((\<exists>e. check_error e \<and> snd (forward ext cfg hdim args) = Inl e) \<longleftrightarrow>
        (fa_input_ids args \<noteq> None \<and> fa_inputs_embeds args \<noteq> None)
        \<or> (fa_input_ids args = None \<and> fa_inputs_embeds args = None))"
proof -
  have both: "fa_input_ids args \<noteq> None \<and> fa_inputs_embeds args \<noteq> None \<longrightarrow>
      forward ext cfg hdim args = ([], Inl (ValueError both_msg))"
    by (simp add: forward_def check_inputs_def)
  have neither: "fa_input_ids args = None \<and> fa_inputs_embeds args = None \<longrightarrow>
      forward ext cfg hdim args = ([], Inl (ValueError either_msg))"
    by (simp add: forward_def check_inputs_def)
  have one: "(fa_input_ids args = None) \<noteq> (fa_inputs_embeds args = None) \<longrightarrow>
      check_inputs (fa_input_ids args) (fa_inputs_embeds args) = Inr ()
      \<and> (\<forall>e. snd (forward ext cfg hdim args) = Inl e \<longrightarrow> \<not> check_error e)"
  proof
    assume x: "(fa_input_ids args = None) \<noteq> (fa_inputs_embeds args = None)"
    then have chk: "check_inputs (fa_input_ids args) (fa_inputs_embeds args) = Inr ()"
      by (auto simp add: check_inputs_def)
    from forward_no_check_error [OF chk, of ext cfg hdim]
    have "\<forall>e. snd (forward ext cfg hdim args) = Inl e \<longrightarrow> \<not> check_error e"
      by (auto simp add: run_sat_def)
    with chk show "check_inputs (fa_input_ids args) (fa_inputs_embeds args) = Inr ()
      \<and> (\<forall>e. snd (forward ext cfg hdim args) = Inl e \<longrightarrow> \<not> check_error e)"
      by simp
  qed
  have iff: "(\<exists>e. check_error e \<and> snd (forward ext cfg hdim args) = Inl e) \<longleftrightarrow>
        (fa_input_ids args \<noteq> None \<and> fa_inputs_embeds args \<noteq> None)
        \<or> (fa_input_ids args = None \<and> fa_inputs_embeds args = None)"
  proof (cases "(fa_input_ids args = None) \<noteq> (fa_inputs_embeds args = None)")
    case True
    with one show ?thesis by auto
  next
    case False
    then consider "fa_input_ids args \<noteq> None \<and> fa_inputs_embeds args \<noteq> None"
      | "fa_input_ids args = None \<and> fa_inputs_embeds args = None"
      by auto
    then show ?thesis
    proof cases
      case 1
      with both have "snd (forward ext cfg hdim args) = Inl (ValueError both_msg)" by simp
      moreover have "check_error (ValueError both_msg)" by (simp add: check_error_def)
      ultimately show ?thesis using 1 by blast
    next
      case 2
      with neither have "snd (forward ext cfg hdim args) = Inl (ValueError either_msg)" by simp
      moreover have "check_error (ValueError either_msg)" by (simp add: check_error_def)
      ultimately show ?thesis using 2 by blast
    qed
  qed
  from both neither one iff show ?thesis by (intro conjI)
qed

theorem forward_input_check_witness:
  "forward example_ext example_cfg 16 (decoder_args\<lparr>fa_inputs_embeds := Some example_kv\<rparr>)
     = ([], Inl (ValueError both_msg))
   \<and> forward example_ext example_cfg 16 (decoder_args\<lparr>fa_input_ids := None\<rparr>)
     = ([], Inl (ValueError either_msg))
   \<and> check_inputs (fa_input_ids decoder_args) (fa_inputs_embeds decoder_args) = Inr ()
   \<and> (\<exists>tr out. forward example_ext example_cfg 16 decoder_args = (tr, Inr out))"
proof -
  let ?both = "decoder_args\<lparr>fa_inputs_embeds := Some example_kv\<rparr>"
  let ?neither = "decoder_args\<lparr>fa_input_ids := None\<rparr>"
  have p1: "fa_input_ids ?both \<noteq> None \<and> fa_inputs_embeds ?both \<noteq> None"
    by (simp add: decoder_args_def)
  have p2: "fa_input_ids ?neither = None \<and> fa_inputs_embeds ?neither = None"
    by (simp add: decoder_args_def)
  have p3: "(fa_input_ids decoder_args = None) \<noteq> (fa_inputs_embeds decoder_args = None)"
    by (simp add: decoder_args_def)
  note r1 = forward_input_check [of ?both example_ext example_cfg 16,
      THEN conjunct1, THEN mp, OF p1]
  note r2 = forward_input_check [of ?neither example_ext example_cfg 16,
      THEN conjunct2, THEN conjunct1, THEN mp, OF p2]
  note r3 = forward_input_check [of decoder_args example_ext example_cfg 16,
      THEN conjunct2, THEN conjunct2, THEN conjunct1, THEN mp, OF p3, THEN conjunct1]
  from r1 r2 r3 decoder_example_returns show ?thesis by (intro conjI)
qed

theorem forward_other_value_error_counterexample:
  "fa_input_ids rank2_args = None
   \<and> fa_inputs_embeds rank2_args \<noteq> None
   \<and> forward example_ext example_cfg 16 rank2_args
       = ([], Inl (ValueError ''cannot unpack the shape into three values''))"
  by (simp add: rank2_args_def decoder_args_def example_mask_def forward_def check_inputs_def
      input_shape_of_def)

section \<open>Claim C3: get_masks\<close>

text \<open>
  C3. For every batch size \<open>b \<ge> 1\<close>, sequence length \<open>s \<ge> 1\<close> and past length \<open>p\<close>:
  without a padding mask, \<open>get_masks\<close> returns a Boolean tensor of shape \<open>[b, 1, s, s + p]\<close>
  whose entry at \<open>(i, 0, q, k)\<close> is true exactly when \<open>k \<le> q + p\<close>; with a two-dimensional
  padding mask of shape \<open>[B, L]\<close> that can be expanded (\<open>B\<close> is \<open>b\<close> or 1, \<open>L\<close> is \<open>s + p\<close> or 1)
  it returns the conjunction of that causal mask with the padding mask, cast to Boolean
  and broadcast to \<open>[b, 1, s, s + p]\<close>.
\<close>

theorem get_masks_causal_and_padding:
  assumes "1 \<le> b" and "1 \<le> s"
  shows "(\<exists>t. get_masks b s p (None :: 'a::zero mask option) = Inr t
              \<and> shape t = [b, 1, s, s + p]
              \<and> (\<forall>i < b. \<forall>q < s. \<forall>k < s + p. entry t [i, 0, q, k] \<longleftrightarrow> k \<le> q + p))
       \<and> (\<forall>(m :: 'a mask) B L.
             mask_shape m = [B, L] \<and> (B = b \<or> B = 1) \<and> (L = s + p \<or> L = 1) \<longrightarrow>
             (\<exists>t. get_masks b s p (Some m) = Inr t
                  \<and> shape t = [b, 1, s, s + p]
                  \<and> (\<forall>i < b. \<forall>q < s. \<forall>k < s + p. entry t [i, 0, q, k] \<longleftrightarrow>
                        k \<le> q + p
                      \<and> entry (astype_bool m)
                          [if B = 1 then 0 else i, if L = 1 then 0 else k])))"
  using get_masks_none [of b s p, where 'a = 'a] get_masks_2d [of _ _ _ b s p, where 'a = 'a]
  by blast


theorem get_masks_causal_and_padding_witness:
  "(1::nat) \<le> 2 \<and> (1::nat) \<le> 3
   \<and> (\<exists>t. get_masks 2 3 1 (None :: int mask option) = Inr t \<and> shape t = [2, 1, 3, 4]
          \<and> entry t [1, 0, 1, 2] \<and> \<not> entry t [1, 0, 1, 3])
   \<and> (\<exists>t. get_masks 2 3 1
              (Some (NumMask \<lparr>shape = [2, 4],
                               entry = (\<lambda>idx. if idx = [1, 2] then 0 else (1::int))\<rparr>)) = Inr t
          \<and> shape t = [2, 1, 3, 4]
          \<and> entry t [0, 0, 1, 2] \<and> \<not> entry t [1, 0, 1, 2] \<and> \<not> entry t [0, 0, 1, 3])"
proof -
  have b: "(1::nat) \<le> 2" and s: "(1::nat) \<le> 3" by simp_all
  let ?m = "NumMask \<lparr>shape = [2, 4], entry = (\<lambda>idx. if idx = [1, 2] then 0 else (1::int))\<rparr>"
  note th = get_masks_causal_and_padding [OF b s, of 1, where 'a = int]
  note A = th [THEN conjunct1]
  have pre: "mask_shape ?m = [2, 4] \<and> ((2::nat) = 2 \<or> (2::nat) = 1) \<and> ((4::nat) = 3 + 1 \<or> (4::nat) = 1)"
    by simp
  note B = th [THEN conjunct2, THEN spec, THEN spec, THEN spec, THEN mp, OF pre]
  from A obtain t where t: "get_masks 2 3 1 (None :: int mask option) = Inr t"
    "shape t = [2, 1, 3, 3 + 1]"
    "\<forall>i<2. \<forall>q<3. \<forall>k<3 + 1. entry t [i, 0, q, k] \<longleftrightarrow> k \<le> q + 1"
    by (elim exE conjE)
  have t1: "entry t [1, 0, 1, 2]"
    using t(3) [rule_format, of 1 1 2] by simp
  have t2: "\<not> entry t [1, 0, 1, 3]"
    using t(3) [rule_format, of 1 1 3] by simp
  from B obtain u where u: "get_masks 2 3 1 (Some ?m) = Inr u"
    "shape u = [2, 1, 3, 3 + 1]"
    "\<forall>i<2. \<forall>q<3. \<forall>k<3 + 1. entry u [i, 0, q, k] \<longleftrightarrow>
        k \<le> q + 1
      \<and> entry (astype_bool ?m) [if 2 = (1::nat) then 0 else i, if 4 = (1::nat) then 0 else k]"
    by (elim exE conjE)
  have u1: "entry u [0, 0, 1, 2]"
    using u(3) [rule_format, of 0 1 2] by simp
  have u2: "\<not> entry u [1, 0, 1, 2]"
    using u(3) [rule_format, of 1 1 2] by simp
  have u3: "\<not> entry u [0, 0, 1, 3]"
    using u(3) [rule_format, of 0 1 3] by simp
  have sh: "[2, 1, 3, 3 + 1] = [2, 1, 3, 4::nat]" by simp
  show ?thesis
    using b s t(1) t(2) t1 t2 u(1) u(2) u1 u2 u3 unfolding sh by blast
qed

section \<open>Claim C4: set_state_dict\<close>

text \<open>
  C4. The claim: \<open>set_state_dict\<close> stores every named weight in its slot. The code: the
  statement for \<open>ln_f.weight\<close> passes \<open>dtype=\<close> to \<open>set_value\<close> instead of \<open>paddle.to_tensor\<close>
  (the statements for \<open>ln_scales\<close> and \<open>ffn_ln_scales\<close> pass it to \<open>to_tensor\<close>). With the
  framework's \<open>set_value(value)\<close> the call raises \<open>TypeError\<close> once \<open>wte.weight\<close> is
  stored, whatever the state dictionary holds beyond its first two keys, and no layer
  slot is written.
\<close>

theorem set_state_dict_keyword_raises:
  assumes "set_value ext = tensor_set_value"
    and "num_attention_heads self \<noteq> 0"
    and "state_dict ''qwen.wte.weight'' = Some w"
    and "state_dict ''qwen.ln_f.weight'' = Some l"
  shows "set_state_dict ext state_dict self
           = Inl (TypeError ''set_value() got an unexpected keyword argument dtype'')"
  using assms
  by (simp add: set_state_dict_def bind_err_def lookup_def tensor_set_value_def Let_def)

theorem set_state_dict_keyword_raises_witness:
  "set_value example_paddle = tensor_set_value
   \<and> num_attention_heads example_model \<noteq> 0
   \<and> example_state_dict ''qwen.wte.weight'' = Some [1]
   \<and> example_state_dict ''qwen.ln_f.weight'' = Some [2]
   \<and> layer_keys_present example_state_dict 0
   \<and> set_state_dict example_paddle example_state_dict example_model
       = Inl (TypeError ''set_value() got an unexpected keyword argument dtype'')"
proof -
  have sv: "set_value example_paddle = tensor_set_value"
    by (simp add: example_paddle_def)
  have nh: "num_attention_heads example_model \<noteq> 0"
    by (simp add: example_model_def)
  from set_state_dict_keyword_raises [OF sv nh example_keys] sv nh example_keys
    example_layer_keys
  show ?thesis by (intro conjI)
qed

section \<open>Claim C5: logits and loss\<close>

text \<open>
  C5. When the wrapped model returns, \<open>QWenForCausalLMInferenceModel.forward\<close> applies
  \<open>lm_head\<close> to its hidden states (the first component of its result) and computes the
  loss \<open>criterion(lm_logits, labels)\<close> exactly when \<open>labels\<close> is given, the loss being \<open>None\<close>
  otherwise. Without \<open>return_dict\<close> the result is the tuple of the loss (when there are
  labels), the logits and the remaining components of the wrapped model's result; with
  it, the result carries the loss and the logits.
\<close>

theorem causal_lm_forward_logits_and_loss:
  assumes "forward ext cfg hdim (qwen_call_args cfg args) = (tr, Inr outputs)"
  shows "\<exists>h rest.
           output_items outputs = TensorV h # rest
         \<and> causal_lm_forward lm ext cfg hdim args labels =
             (tr, Inr
               (let lm_logits =
                      lm_head lm h
                        (cfg_tensor_parallel_output cfg \<and> labels \<noteq> None
                         \<and> cfg_tensor_parallel_degree cfg > 1);
                    loss = map_option (criterion lm lm_logits) labels
                in if \<not> resolve (fa_return_dict args) (cfg_use_return_dict cfg)
                   then LMTuple
                          ((case loss of None \<Rightarrow> [] | Some v \<Rightarrow> [TensorV v])
                           @ TensorV lm_logits # rest)
                   else LMOut
                          \<lparr>clm_loss = loss,
                           clm_logits = lm_logits,
                           clm_past_key_values =
                             (if resolve (fa_use_cache args) (cfg_use_cache cfg)
                              then Some (TupleV []) else None),
                           clm_hidden_states =
                             (if resolve (fa_output_hidden_states args)
                                   (cfg_output_hidden_states cfg)
                              then Some (TupleV [TensorV h]) else None),
                           clm_attentions =
                             (if resolve (fa_output_attentions args)
                                   (cfg_output_attentions cfg)
                              then Some (TupleV []) else None)\<rparr>))"
proof -
  from forward_completed [OF assms] obtain h where
    "outputs =
        make_output (resolve (fa_return_dict (qwen_call_args cfg args)) (cfg_use_return_dict cfg)) h
          (empty_tuple_if (resolve (fa_use_cache (qwen_call_args cfg args)) (cfg_use_cache cfg)))
          (if resolve (fa_output_hidden_states (qwen_call_args cfg args))
                (cfg_output_hidden_states cfg)
           then tuple_append
                  (empty_tuple_if
                     (resolve (fa_output_hidden_states (qwen_call_args cfg args))
                        (cfg_output_hidden_states cfg)))
                  (TensorV h)
           else empty_tuple_if
                  (resolve (fa_output_hidden_states (qwen_call_args cfg args))
                     (cfg_output_hidden_states cfg)))
          (empty_tuple_if
             (resolve (fa_output_attentions (qwen_call_args cfg args))
                (cfg_output_attentions cfg)))"
    by (elim exE conjE)
  then have out: "outputs =
      (if \<not> resolve (fa_return_dict args) (cfg_use_return_dict cfg)
       then TupleOut
              (TensorV h
               # (if resolve (fa_use_cache args) (cfg_use_cache cfg) then [TupleV []] else [])
               @ (if resolve (fa_output_hidden_states args) (cfg_output_hidden_states cfg)
                  then [TupleV [TensorV h]] else [])
               @ (if resolve (fa_output_attentions args) (cfg_output_attentions cfg)
                  then [TupleV []] else []))
       else ModelOut
              \<lparr>bo_last_hidden_state = h,
               bo_past_key_values =
                 (if resolve (fa_use_cache args) (cfg_use_cache cfg)
                  then Some (TupleV []) else None),
               bo_hidden_states =
                 (if resolve (fa_output_hidden_states args) (cfg_output_hidden_states cfg)
                  then Some (TupleV [TensorV h]) else None),
               bo_attentions =
                 (if resolve (fa_output_attentions args) (cfg_output_attentions cfg)
                  then Some (TupleV []) else None)\<rparr>)"
    unfolding make_output_form qwen_call_args_flags by simp
  show ?thesis
  proof (cases "resolve (fa_return_dict args) (cfg_use_return_dict cfg)")
    case False
    with out obtain rest where o: "outputs = TupleOut (TensorV h # rest)"
      by simp
    have "causal_lm_forward lm ext cfg hdim args labels =
             (tr, Inr
               (let lm_logits =
                      lm_head lm h
                        (cfg_tensor_parallel_output cfg \<and> labels \<noteq> None
                         \<and> cfg_tensor_parallel_degree cfg > 1);
                    loss = map_option (criterion lm lm_logits) labels
                in LMTuple
                          ((case loss of None \<Rightarrow> [] | Some v \<Rightarrow> [TensorV v])
                           @ TensorV lm_logits # rest)))"
      unfolding causal_lm_forward_def Let_def then_run_value [OF assms]
      using False
      by (cases labels)
         (simp_all add: o py_index_def bind_err_def ret_def)
    with False o show ?thesis by (intro exI [of _ h] exI [of _ rest]) (simp add: Let_def)
  next
    case True
    define r where "r =
              \<lparr>bo_last_hidden_state = h,
               bo_past_key_values =
                 (if resolve (fa_use_cache args) (cfg_use_cache cfg)
                  then Some (TupleV []) else None),
               bo_hidden_states =
                 (if resolve (fa_output_hidden_states args) (cfg_output_hidden_states cfg)
                  then Some (TupleV [TensorV h]) else None),
               bo_attentions =
                 (if resolve (fa_output_attentions args) (cfg_output_attentions cfg)
                  then Some (TupleV []) else None)\<rparr>"
    have o: "outputs = ModelOut r" "bo_last_hidden_state r = h"
      "bo_past_key_values r =
                 (if resolve (fa_use_cache args) (cfg_use_cache cfg)
                  then Some (TupleV []) else None)"
      "bo_hidden_states r =
                 (if resolve (fa_output_hidden_states args) (cfg_output_hidden_states cfg)
                  then Some (TupleV [TensorV h]) else None)"
      "bo_attentions r =
                 (if resolve (fa_output_attentions args) (cfg_output_attentions cfg)
                  then Some (TupleV []) else None)"
      using out True by (simp_all add: r_def)
    define rest where
      "rest = List.map_filter id [bo_past_key_values r, bo_hidden_states r, bo_attentions r]"
    have tt: "to_tuple r = TensorV h # rest"
      by (simp add: to_tuple_def rest_def o(2) List.map_filter_simps)
    have items: "output_items outputs = TensorV h # rest"
      by (simp add: o(1) tt)
    have "causal_lm_forward lm ext cfg hdim args labels =
             (tr, Inr
               (let lm_logits =
                      lm_head lm h
                        (cfg_tensor_parallel_output cfg \<and> labels \<noteq> None
                         \<and> cfg_tensor_parallel_degree cfg > 1);
                    loss = map_option (criterion lm lm_logits) labels
                in LMOut
                          \<lparr>clm_loss = loss,
                           clm_logits = lm_logits,
                           clm_past_key_values = bo_past_key_values r,
                           clm_hidden_states = bo_hidden_states r,
                           clm_attentions = bo_attentions r\<rparr>))"
      unfolding causal_lm_forward_def Let_def then_run_value [OF assms]
      using True
      by (cases labels)
         (simp_all add: o(1) tt py_index_def bind_err_def ret_def)
    with True items o show ?thesis
      by (intro exI [of _ h] exI [of _ rest]) (simp add: Let_def)
  qed
qed

theorem causal_lm_forward_logits_and_loss_witness:
  "(\<exists>tr out. forward example_ext example_cfg 16 (qwen_call_args example_cfg decoder_args)
               = (tr, Inr out))
   \<and> (\<exists>tr h rest.
         causal_lm_forward example_lm example_ext example_cfg 16 decoder_args (Some 42)
           = (tr, Inr (LMTuple
                        (TensorV (criterion example_lm (lm_head example_lm h False) 42)
                         # TensorV (lm_head example_lm h False) # rest))))
   \<and> (\<exists>tr h rest.
         causal_lm_forward example_lm example_ext example_cfg 16 decoder_args None
           = (tr, Inr (LMTuple (TensorV (lm_head example_lm h False) # rest))))"
proof -
  obtain tr out where
    run: "forward example_ext example_cfg 16 (qwen_call_args example_cfg decoder_args)
            = (tr, Inr out)"
    using decoder_example_inner_returns by (elim exE)
  have rd: "\<not> resolve (fa_return_dict decoder_args) (cfg_use_return_dict example_cfg)"
    by (simp add: decoder_args_def resolve_def)
  have tp: "\<not> cfg_tensor_parallel_output example_cfg"
    by (simp add: example_cfg_def)
  from causal_lm_forward_logits_and_loss [OF run, of example_lm "Some 42"]
  obtain h1 rest1 where
    "causal_lm_forward example_lm example_ext example_cfg 16 decoder_args (Some 42)
       = (tr, Inr (LMTuple
                    (TensorV (criterion example_lm (lm_head example_lm h1 False) 42)
                     # TensorV (lm_head example_lm h1 False) # rest1)))"
    using rd tp by (auto simp add: Let_def)
  then have c1: "\<exists>tr h rest.
         causal_lm_forward example_lm example_ext example_cfg 16 decoder_args (Some 42)
           = (tr, Inr (LMTuple
                        (TensorV (criterion example_lm (lm_head example_lm h False) 42)
                         # TensorV (lm_head example_lm h False) # rest)))"
    by (intro exI)
  from causal_lm_forward_logits_and_loss [OF run, of example_lm None]
  obtain h2 rest2 where
    "causal_lm_forward example_lm example_ext example_cfg 16 decoder_args None
       = (tr, Inr (LMTuple (TensorV (lm_head example_lm h2 False) # rest2)))"
    using rd tp by (auto simp add: Let_def)
  then have c2: "\<exists>tr h rest.
         causal_lm_forward example_lm example_ext example_cfg 16 decoder_args None
           = (tr, Inr (LMTuple (TensorV (lm_head example_lm h False) # rest)))"
    by (intro exI)
  from decoder_example_inner_returns c1 c2 show ?thesis by (intro conjI)
qed

section \<open>Claim C6: remove_padding\<close>

text \<open>
  C6. For every non-empty vector \<open>seq_lens_this_time\<close> of signed integers of some width
  for which the sum over all \<open>j\<close> of (maximum of the vector minus its j-th entry) fits that
  width and the sum of the vector fits the width of the tensor \<open>paddle.sum\<close> returns:
  \<open>remove_padding\<close> computes \<open>token_num\<close> as the sum of the vector and \<open>cum_offsets_now\<close>
  whose i-th entry is the sum over \<open>j \<le> i\<close> of (maximum minus j-th entry), hands both with
  \<open>input_ids\<close> and the vector to the external padding-offset operator, and returns the
  operator's three outputs in the order ids_remove_padding, padding_offset, cum_offsets.
  Without the two bounds the entries wrap around: the third offset of the \<open>int32\<close> vector
  (0, 2147483647, 0) is -2, not 4294967294.
\<close>

theorem remove_padding_computes_offsets:
  fixes seq :: "'w::len word list"
  assumes "seq \<noteq> []"
    and "offset_sum seq (length seq - 1) < 2 ^ (LENGTH('w) - 1)"
    and "- (2 ^ (sum_bits seq - 1)) \<le> (\<Sum>x\<leftarrow>seq. sint x)"
    and "(\<Sum>x\<leftarrow>seq. sint x) < 2 ^ (sum_bits seq - 1)"
  shows "remove_padding gpo ids seq =
           (case gpo ids (map (\<lambda>i. word_of_int (offset_sum seq i)) [0..<length seq])
                     (\<Sum>x\<leftarrow>seq. sint x) seq of
              (ids_remove_padding, cum_offsets, padding_offset) \<Rightarrow>
                Inr (ids_remove_padding, padding_offset, cum_offsets))
       \<and> (\<forall>i<length seq. sint (word_of_int (offset_sum seq i) :: 'w word) = offset_sum seq i)"
proof -
  from paddle_max_value [OF assms(1)] obtain m where
    m: "paddle_max seq = Inr m" "sint m = Max (sint ` set seq)"
    by (elim exE conjE)
  have cum: "paddle_cumsum (scalar_minus m seq)
               = map (\<lambda>i. word_of_int (offset_sum seq i)) [0..<length seq]"
    by (simp only: cumsum_offsets_wrap m(2) offset_sum_def)
  have run: "remove_padding gpo ids seq =
           (case gpo ids (map (\<lambda>i. word_of_int (offset_sum seq i)) [0..<length seq])
                     (\<Sum>x\<leftarrow>seq. sint x) seq of
              (ids_remove_padding, cum_offsets, padding_offset) \<Rightarrow>
                Inr (ids_remove_padding, padding_offset, cum_offsets))"
    by (simp add: remove_padding_def m(1) bind_err_def cum paddle_sum_value [OF assms(3,4)])
  have val: "\<forall>i<length seq. sint (word_of_int (offset_sum seq i) :: 'w word) = offset_sum seq i"
  proof (intro allI impI)
    fix i assume i: "i < length seq"
    have neg: "- (2 ^ (LENGTH('w) - 1)) \<le> (0::int)"
      by simp
    from offset_sum_bounds [OF i] assms(2) neg
    have "- (2 ^ (LENGTH('w) - 1)) \<le> offset_sum seq i"
      and "offset_sum seq i < 2 ^ (LENGTH('w) - 1)"
      by linarith+
    then show "sint (word_of_int (offset_sum seq i) :: 'w word) = offset_sum seq i"
      by (rule sint_word_of_int_in_range)
  qed
  from run val show ?thesis by (rule conjI)
qed

theorem remove_padding_computes_offsets_witness:
  "example_seq \<noteq> []
   \<and> offset_sum example_seq (length example_seq - 1) < 2 ^ (LENGTH(32) - 1)
   \<and> - (2 ^ (sum_bits example_seq - 1)) \<le> (\<Sum>x\<leftarrow>example_seq. sint x)
   \<and> (\<Sum>x\<leftarrow>example_seq. sint x) < 2 ^ (sum_bits example_seq - 1)
   \<and> remove_padding echo_offsets () example_seq = Inr ([0, 2, 3], example_seq, 6)"
proof -
  have ne: "example_seq \<noteq> []"
    by (simp add: example_seq_def)
  have len: "length example_seq - 1 = 2" and up: "[0..<length example_seq] = [0, 1, 2]"
    by (simp_all add: example_seq_def upt_rec)
  have o: "offset_sum example_seq (length example_seq - 1) < 2 ^ (LENGTH(32) - 1)"
    unfolding len by (simp add: example_seq_offsets)
  have total: "(\<Sum>x\<leftarrow>example_seq. sint x) = 6"
    by (simp add: example_seq_def)
  have lo: "- (2 ^ (sum_bits example_seq - 1)) \<le> (\<Sum>x\<leftarrow>example_seq. sint x)"
    and hi: "(\<Sum>x\<leftarrow>example_seq. sint x) < 2 ^ (sum_bits example_seq - 1)"
    by (simp_all add: total sum_bits_def)
  note th = remove_padding_computes_offsets [OF ne o lo hi, of echo_offsets "()", THEN conjunct1]
  have run: "remove_padding echo_offsets () example_seq = Inr ([0, 2, 3], example_seq, 6)"
    unfolding th up
    by (simp add: example_seq_offsets total echo_offsets_def del: One_nat_def)
  from ne o lo hi run show ?thesis by (intro conjI)
qed

theorem remove_padding_wraps_counterexample:
  "remove_padding echo_offsets () wrap_seq
     = Inr ([2147483647, 2147483647, - 2], wrap_seq, 2147483647)
   \<and> sint (- 2 :: 32 word) = - 2
   \<and> offset_sum wrap_seq 2 = 4294967294"
proof -
  have run: "remove_padding echo_offsets () wrap_seq
     = Inr ([2147483647, 2147483647, - 2], wrap_seq, 2147483647)"
    by (simp add: remove_padding_def bind_err_def wrap_seq_def smax_def paddle_cumsum_def
        scalar_minus_def paddle_sum_def echo_offsets_def)
  have s: "sint (- 2 :: 32 word) = - 2"
    by simp
  from run s wrap_seq_offsets show ?thesis by (intro conjI)
qed

section \<open>Claim C7: the rotary position offset\<close>

text \<open>
  C7. The claim: the rotary-embedding operator is called once with offset 128 in the
  encoder phase with \<open>pre_caches\<close>, with offset 0 otherwise, and the fused block gets the
  same number as \<open>pre_caches_length\<close>. The code: whenever the operator is called the
  offset is 0 and the call is a decoder-phase call, the fused block is handed
  \<open>pre_caches_length = 0\<close>, and an encoder-phase call makes no external call at all; the
  offset 128 is never passed.
\<close>

theorem forward_rotary_offset:
  "(RotaryCall i p h off b \<in> set (fst (forward ext cfg hdim args)) \<longrightarrow>
      off = 0 \<and> fa_cache args \<noteq> None)
   \<and> (BlockCall blk \<in> set (fst (forward ext cfg hdim args)) \<longrightarrow>
      ba_pre_caches_length blk = 0 \<and> fa_cache args \<noteq> None)
   \<and> (fa_cache args = None \<longrightarrow> fst (forward ext cfg hdim args) = [])"
proof (intro conjI impI)
  assume r: "RotaryCall i p h off b \<in> set (fst (forward ext cfg hdim args))"
  from forward_rotary_calls [OF r] show "off = 0" by simp
  from forward_rotary_calls [OF r] show "fa_cache args \<noteq> None" by simp
next
  assume b: "BlockCall blk \<in> set (fst (forward ext cfg hdim args))"
  from forward_block_calls [OF b] show "ba_pre_caches_length blk = 0" by simp
  from forward_calls_decoder [OF b] show "fa_cache args \<noteq> None" .
next
  assume "fa_cache args = None"
  then obtain e where "forward ext cfg hdim args = ([], Inl e)"
    using forward_encoder_never_completes by blast
  then show "fst (forward ext cfg hdim args) = []" by simp
qed

theorem forward_rotary_offset_witness:
  "fa_cache encoder_args = None \<and> fa_pre_caches encoder_args \<noteq> None
   \<and> fst (forward example_ext example_cfg 16 encoder_args) = []
   \<and> RotaryCall (Some example_ids) None 16 0 True
        \<in> set (fst (forward example_ext example_cfg 16 decoder_args))
   \<and> fa_cache decoder_args \<noteq> None"
proof -
  note e = forward_rotary_offset [of _ _ _ _ _ example_ext example_cfg 16 encoder_args,
      THEN conjunct2, THEN conjunct2, THEN mp, OF encoder_example_cache]
  note d = forward_rotary_offset [of "Some example_ids" None 16 0 True example_ext example_cfg 16
      decoder_args, THEN conjunct1, THEN mp, OF decoder_example_rotary, THEN conjunct2]
  from encoder_example_cache encoder_example_pre_caches e decoder_example_rotary d
  show ?thesis by (intro conjI)
qed

section \<open>Claim C8: past_key_values of the result\<close>

text \<open>
  C8. For every call of \<open>forward\<close> that returns: the tuple result is the hidden states,
  then the empty tuple of \<open>presents\<close> when \<open>use_cache\<close> holds and nothing when it does not,
  then the hidden-state and attention tuples when they are asked for; the dict result
  has \<open>past_key_values\<close> the empty tuple when \<open>use_cache\<close> holds and \<open>None\<close> when it does not.
\<close>

theorem forward_presents_empty:
  assumes "forward ext cfg hdim args = (tr, Inr out)"
  shows "case out of
           TupleOut xs \<Rightarrow>
             \<not> resolve (fa_return_dict args) (cfg_use_return_dict cfg)
             \<and> (\<exists>h. xs =
                   TensorV h
                   # (if resolve (fa_use_cache args) (cfg_use_cache cfg) then [TupleV []] else [])
                   @ (if resolve (fa_output_hidden_states args) (cfg_output_hidden_states cfg)
                      then [TupleV [TensorV h]] else [])
                   @ (if resolve (fa_output_attentions args) (cfg_output_attentions cfg)
                      then [TupleV []] else []))
         | ModelOut r \<Rightarrow>
             resolve (fa_return_dict args) (cfg_use_return_dict cfg)
             \<and> bo_past_key_values r =
                 (if resolve (fa_use_cache args) (cfg_use_cache cfg)
                  then Some (TupleV []) else None)"
proof -
  from forward_completed [OF assms] obtain h where
    "out =
        make_output (resolve (fa_return_dict args) (cfg_use_return_dict cfg)) h
          (empty_tuple_if (resolve (fa_use_cache args) (cfg_use_cache cfg)))
          (if resolve (fa_output_hidden_states args) (cfg_output_hidden_states cfg)
           then tuple_append
                  (empty_tuple_if
                     (resolve (fa_output_hidden_states args) (cfg_output_hidden_states cfg)))
                  (TensorV h)
           else empty_tuple_if
                  (resolve (fa_output_hidden_states args) (cfg_output_hidden_states cfg)))
          (empty_tuple_if (resolve (fa_output_attentions args) (cfg_output_attentions cfg)))"
    by (elim exE conjE)
  then show ?thesis
    unfolding make_output_form by simp
qed

theorem forward_presents_empty_witness:
  "(\<exists>tr h. forward example_ext example_cfg 16 decoder_args
              = (tr, Inr (TupleOut [TensorV h, TupleV []])))
   \<and> (\<exists>tr h. forward example_ext example_cfg 16 (decoder_args\<lparr>fa_use_cache := Some False\<rparr>)
              = (tr, Inr (TupleOut [TensorV h])))
   \<and> (\<exists>tr r. forward example_ext example_cfg 16 (decoder_args\<lparr>fa_return_dict := Some True\<rparr>)
              = (tr, Inr (ModelOut r)) \<and> bo_past_key_values r = Some (TupleV []))"
proof -
  let ?a2 = "decoder_args\<lparr>fa_use_cache := Some False\<rparr>"
  let ?a3 = "decoder_args\<lparr>fa_return_dict := Some True\<rparr>"
  obtain tr1 out1 where r1: "forward example_ext example_cfg 16 decoder_args = (tr1, Inr out1)"
    using decoder_example_returns by (elim exE)
  have "\<exists>tr out. forward example_ext example_cfg 16 ?a2 = (tr, Inr out)"
    by (simp add: forward_eval_defs)
  then obtain tr2 out2 where r2: "forward example_ext example_cfg 16 ?a2 = (tr2, Inr out2)"
    by (elim exE)
  have "\<exists>tr out. forward example_ext example_cfg 16 ?a3 = (tr, Inr out)"
    by (simp add: forward_eval_defs)
  then obtain tr3 out3 where r3: "forward example_ext example_cfg 16 ?a3 = (tr3, Inr out3)"
    by (elim exE)
  have f1: "\<exists>h. out1 = TupleOut [TensorV h, TupleV []]"
    using forward_presents_empty [OF r1]
    by (cases out1) (simp_all add: decoder_args_def example_cfg_def resolve_def)
  have f2: "\<exists>h. out2 = TupleOut [TensorV h]"
    using forward_presents_empty [OF r2]
    by (cases out2) (simp_all add: decoder_args_def example_cfg_def resolve_def)
  have f3: "\<exists>r. out3 = ModelOut r \<and> bo_past_key_values r = Some (TupleV [])"
    using forward_presents_empty [OF r3]
    by (cases out3) (simp_all add: decoder_args_def example_cfg_def resolve_def)
  from r1 f1 have c1: "\<exists>tr h. forward example_ext example_cfg 16 decoder_args
              = (tr, Inr (TupleOut [TensorV h, TupleV []]))"
    by auto
  from r2 f2 have c2: "\<exists>tr h. forward example_ext example_cfg 16 ?a2
              = (tr, Inr (TupleOut [TensorV h]))"
    by auto
  from r3 f3 have c3: "\<exists>tr r. forward example_ext example_cfg 16 ?a3
              = (tr, Inr (ModelOut r)) \<and> bo_past_key_values r = Some (TupleV [])"
    by auto
  from c1 c2 c3 show ?thesis by (intro conjI)
qed

section \<open>Claim C9: the mask handed to the fused block\<close>



section \<open>Claim C10: prepare_inputs_for_generation\<close>

text \<open>
  C10. With a \<open>cache\<close> (decoder phase) the returned inputs have \<open>input_ids = tgt_ids\<close>,
  \<open>position_ids = tgt_pos\<close>, \<open>attention_mask = (tgt_generation_mask - 1) * 1e4\<close> and
  \<open>inputs_embeds = None\<close>; without one (encoder phase) and with an attention mask, the
  returned mask is \<open>(attention_mask - 1) * 1e4\<close> and \<open>input_ids\<close>, \<open>position_ids\<close> and
  \<open>inputs_embeds\<close> are handed on unchanged. The scaled mask has the shape of the mask, and
  an entry 1 becomes 0 and an entry 0 becomes -10000.
\<close>

theorem prepare_inputs_by_phase:
  "(kw_cache kwargs \<noteq> None \<longrightarrow>
      prepare_inputs_for_generation input_ids cache_kvs seq_len_encoder seq_len_decoder tgt_ids
          tgt_pos tgt_generation_mask kwargs =
        Inr \<lparr>mi_input_ids = tgt_ids,
             mi_inputs_embeds = None,
             mi_position_ids = tgt_pos,
             mi_attention_mask =
               tensor_mul_scalar (tensor_sub_scalar tgt_generation_mask 1) 10000,
             mi_cache_kvs = cache_kvs,
             mi_seq_len_encoder = seq_len_encoder,
             mi_seq_len_decoder = seq_len_decoder,
             mi_cache = kw_cache kwargs,
             mi_pre_caches = kw_pre_caches kwargs\<rparr>)
   \<and> (kw_cache kwargs = None \<and> kw_attention_mask kwargs = Some m \<longrightarrow>
      prepare_inputs_for_generation input_ids cache_kvs seq_len_encoder seq_len_decoder tgt_ids
          tgt_pos tgt_generation_mask kwargs =
        Inr \<lparr>mi_input_ids = input_ids,
             mi_inputs_embeds = kw_inputs_embeds kwargs,
             mi_position_ids = kw_position_ids kwargs,
             mi_attention_mask = tensor_mul_scalar (tensor_sub_scalar m 1) 10000,
             mi_cache_kvs = cache_kvs,
             mi_seq_len_encoder = seq_len_encoder,
             mi_seq_len_decoder = seq_len_decoder,
             mi_cache = None,
             mi_pre_caches = kw_pre_caches kwargs\<rparr>)
   \<and> shape (tensor_mul_scalar (tensor_sub_scalar (t :: 'a::ring_1 tensor) 1) 10000) = shape t
   \<and> entry (tensor_mul_scalar (tensor_sub_scalar t 1) 10000) idx = (entry t idx - 1) * 10000
   \<and> (entry t idx = 1 \<longrightarrow> entry (tensor_mul_scalar (tensor_sub_scalar t 1) 10000) idx = 0)
   \<and> (entry t idx = 0 \<longrightarrow>
        entry (tensor_mul_scalar (tensor_sub_scalar t 1) 10000) idx = - 10000)"
  by (simp add: prepare_inputs_for_generation_def bind_err_def tensor_mul_scalar_def
      tensor_sub_scalar_def)

theorem prepare_inputs_by_phase_witness:
  "kw_cache decoder_kwargs \<noteq> None
   \<and> (\<exists>r. prepare_inputs_for_generation (Some 1) (Some 2) (Some 3) (Some 4)
          (Some 5) (Some 6) example_mask decoder_kwargs = Inr r
        \<and> mi_input_ids r = Some 5 \<and> mi_position_ids r = Some 6 \<and> mi_inputs_embeds r = None
        \<and> entry (mi_attention_mask r) [1, 2] = - 10000
        \<and> entry (mi_attention_mask r) [0, 2] = 0)
   \<and> kw_cache encoder_kwargs = None
   \<and> kw_attention_mask encoder_kwargs = Some example_mask
   \<and> (\<exists>r. prepare_inputs_for_generation (Some 1) (Some 2) (Some 3) (Some 4)
          (Some 5) (Some 6) example_mask encoder_kwargs = Inr r
        \<and> mi_input_ids r = Some 1 \<and> mi_position_ids r = Some 11
        \<and> mi_inputs_embeds r = Some 13
        \<and> entry (mi_attention_mask r) [1, 2] = - 10000
        \<and> entry (mi_attention_mask r) [0, 2] = 0)"
proof -
  have d: "kw_cache decoder_kwargs \<noteq> None"
    by (simp add: decoder_kwargs_def)
  have e: "kw_cache encoder_kwargs = None \<and> kw_attention_mask encoder_kwargs = Some example_mask"
    by (simp add: encoder_kwargs_def)
  have z: "entry example_mask [1, 2] = 0" and o: "entry example_mask [0, 2] = 1"
    by (simp_all add: example_mask_def)
  note th1 = prepare_inputs_by_phase [of decoder_kwargs "Some 1" "Some 2" "Some 3" "Some 4"
      "Some 5" "Some 6" example_mask example_mask example_mask "[1, 2]"]
  note th2 = prepare_inputs_by_phase [of encoder_kwargs "Some 1" "Some 2" "Some 3" "Some 4"
      "Some 5" "Some 6" example_mask example_mask example_mask "[0, 2]"]
  note run_d = th1 [THEN conjunct1, THEN mp, OF d]
  note run_e = th2 [THEN conjunct2, THEN conjunct1, THEN mp, OF e]
  note zero_to = th1 [THEN conjunct2, THEN conjunct2, THEN conjunct2, THEN conjunct2,
      THEN conjunct2, THEN mp, OF z]
  note one_to = th2 [THEN conjunct2, THEN conjunct2, THEN conjunct2, THEN conjunct2,
      THEN conjunct1, THEN mp, OF o]
  have c1: "\<exists>r. prepare_inputs_for_generation (Some 1) (Some 2) (Some 3) (Some 4)
          (Some 5) (Some 6) example_mask decoder_kwargs = Inr r
        \<and> mi_input_ids r = Some 5 \<and> mi_position_ids r = Some 6 \<and> mi_inputs_embeds r = None
        \<and> entry (mi_attention_mask r) [1, 2] = - 10000
        \<and> entry (mi_attention_mask r) [0, 2] = 0"
    unfolding run_d using zero_to one_to by simp
  have c2: "\<exists>r. prepare_inputs_for_generation (Some 1) (Some 2) (Some 3) (Some 4)
          (Some 5) (Some 6) example_mask encoder_kwargs = Inr r
        \<and> mi_input_ids r = Some 1 \<and> mi_position_ids r = Some 11
        \<and> mi_inputs_embeds r = Some 13
        \<and> entry (mi_attention_mask r) [1, 2] = - 10000
        \<and> entry (mi_attention_mask r) [0, 2] = 0"
    unfolding run_e using zero_to one_to by (simp add: encoder_kwargs_def)
  from d e c1 c2 show ?thesis by simp
qed

end
